theory Spec2Isabelle
  imports Main "HOL-Library.Word"
begin

unbundle bit_operations_syntax

section \<open>The STM32F4xx UART driver (platform\_uart.c)\<close>

text \<open>
  The driver moves bytes between a USART and memory with two DMA streams and is woken
  by three interrupt handlers. The embedding is of the build with the RTOS
  (\<^verbatim>\<open>NO_MICO_RTOS\<close> undefined: semaphores and the transmit mutex exist) and of the
  interrupt vector table of the \<^verbatim>\<open>#else\<close> branch (all six ports).

  One record holds the driver instance and the registers the driver touches. The driver
  pointer is the state itself, so the \<^verbatim>\<open>driver != NULL\<close> tests are always true here.
  A task runs sequentially; hardware activity and interrupt handlers are taken from an
  explicit list of events and run only while the task waits (on a semaphore, or in the
  busy-wait on the transmission-complete bit). Running out of events while waiting is
  the value \<open>Inl NeverReturns\<close>.
\<close>

subsection \<open>Values\<close>

type_synonym uint8_t = "8 word"
type_synonym uint32_t = "32 word"

text \<open>The four result codes the driver produces.\<close>

datatype OSStatus = kNoErr | kGeneralErr | kParamErr | kTimeoutErr

text \<open>What a C execution does instead of returning a value.\<close>

datatype fault = NullPointer | OutOfBounds | DivideByZero | NeverReturns

definition MICO_NEVER_TIMEOUT :: uint32_t where
  "MICO_NEVER_TIMEOUT = 0xFFFFFFFF"

subsection \<open>The ring buffer\<close>

text \<open>
  \<open>buffer\<close> is the address of the backing store and \<open>store i\<close> the byte at
  \<open>buffer + i\<close>.
\<close>

record ring_buffer_t =
  buffer :: uint32_t
  store :: "nat \<Rightarrow> uint8_t"
  size :: uint32_t
  head :: uint32_t
  tail :: uint32_t

text \<open>
  Modelled from the spec: \<^verbatim>\<open>ring_buffer_used_space\<close> is not among the sources. The
  used space is derived from the head cursor (advanced by the consumer) and the tail
  cursor (recomputed by the interrupt), modulo the capacity.
\<close>

definition ring_buffer_used_space :: "ring_buffer_t \<Rightarrow> fault + uint32_t" where
  "ring_buffer_used_space rb =
     (if size rb = 0 then Inl DivideByZero
      else Inr ((size rb - head rb + tail rb) mod size rb))"

text \<open>
  Modelled from the spec: \<^verbatim>\<open>ring_buffer_get_data\<close> is not among the sources. The
  contiguous read: the offset of the first unread byte and the number of unread bytes
  before the end of the store.
\<close>

definition ring_buffer_get_data :: "ring_buffer_t \<Rightarrow> fault + (uint32_t \<times> uint32_t)" where
  "ring_buffer_get_data rb =
     (if size rb = 0 then Inl DivideByZero
      else Inr (head rb,
                min (size rb - head rb) ((size rb - head rb + tail rb) mod size rb)))"

text \<open>
  Modelled from the spec: \<^verbatim>\<open>ring_buffer_consume\<close> is not among the sources. The
  consumer advances the head cursor, wrapping at the capacity.
\<close>

definition ring_buffer_consume :: "ring_buffer_t \<Rightarrow> uint32_t \<Rightarrow> fault + ring_buffer_t" where
  "ring_buffer_consume rb n =
     (if size rb = 0 then Inl DivideByZero
      else Inr (rb\<lparr>head := (head rb + n) mod size rb\<rparr>))"

subsection \<open>The peripheral description\<close>

datatype DMA_TypeDef = DMA1 | DMA2

record platform_dma_config_t =
  controller :: DMA_TypeDef
  stream :: uint32_t
  channel :: uint32_t
  irq_vector :: nat
  error_flags :: uint32_t
  complete_flags :: uint32_t

datatype USART_port = USART1 | USART2 | USART3 | UART4 | UART5 | USART6 | USART_OTHER

record platform_uart_t =
  port :: USART_port
  pin_tx :: nat
  pin_rx :: nat
  pin_cts :: "nat option"
  pin_rts :: "nat option"
  tx_dma_config :: platform_dma_config_t
  rx_dma_config :: platform_dma_config_t

datatype platform_uart_data_width_t = DATA_WIDTH_8BIT | DATA_WIDTH_9BIT | DATA_WIDTH_OTHER
datatype platform_uart_parity_t = NO_PARITY | ODD_PARITY | EVEN_PARITY | PARITY_OTHER
datatype platform_uart_stop_bits_t = STOP_BITS_1 | STOP_BITS_2
datatype platform_uart_flow_control_t =
  FLOW_CONTROL_DISABLED | FLOW_CONTROL_CTS | FLOW_CONTROL_RTS | FLOW_CONTROL_CTS_RTS
  | FLOW_CONTROL_OTHER

record platform_uart_config_t =
  baud_rate :: uint32_t
  data_width :: platform_uart_data_width_t
  parity :: platform_uart_parity_t
  stop_bits :: platform_uart_stop_bits_t
  flow_control :: platform_uart_flow_control_t
  UART_WAKEUP_ENABLE :: bool

subsection \<open>Registers\<close>

text \<open>
  A register whose bits the driver sets and clears one by one is the set of its bits
  that are 1: \<^verbatim>\<open>CR |= B\<close> is \<open>insert B\<close>, \<^verbatim>\<open>CR &= ~B\<close> removes \<open>B\<close>. The pending-flag
  registers of the DMA controllers are words, because the peripheral description
  gives the flags of a stream as masks.
\<close>

datatype dma_cr_bit =
  DMA_SxCR_EN | DMA_SxCR_CIRC | DMA_IT_TC | DMA_IT_TE | DMA_IT_DME | DMA_IT_FE

definition DMA_INTERRUPT_FLAGS :: "dma_cr_bit set" where
  "DMA_INTERRUPT_FLAGS = {DMA_IT_TC, DMA_IT_TE, DMA_IT_DME, DMA_IT_FE}"

record DMA_Stream_TypeDef =
  CR :: "dma_cr_bit set"
  NDTR :: uint32_t
  NDTR_reload :: uint32_t
  M0AR :: uint32_t

text \<open>
  \<open>NDTR_reload\<close> is the hardware's copy of the count last written to \<open>NDTR\<close>: a
  stream in circular mode reloads \<open>NDTR\<close> from it when the count reaches zero.
\<close>

definition NDTR_write :: "uint32_t \<Rightarrow> DMA_Stream_TypeDef \<Rightarrow> DMA_Stream_TypeDef" where
  "NDTR_write n st = st\<lparr>NDTR := n, NDTR_reload := n\<rparr>"

datatype usart_sr_bit = USART_SR_TC | USART_SR_RXNE | USART_SR_TXE | USART_SR_ERRORS
datatype usart_cr1_bit = USART_CR1_UE | USART_CR1_TE | USART_CR1_RE | USART_CR1_RXNEIE
datatype usart_dmareq = USART_DMAReq_Tx | USART_DMAReq_Rx

record USART_TypeDef =
  SR :: "usart_sr_bit set"
  CR1 :: "usart_cr1_bit set"
  CR3 :: "usart_dmareq set"

datatype dma_status_reg = DMA1_LISR | DMA1_HISR | DMA2_LISR | DMA2_HISR

text \<open>The addresses of the streams that the driver compares a stream pointer with.\<close>

definition DMA1_Stream3 :: uint32_t where "DMA1_Stream3 = 0x40026058"
definition DMA1_Stream7 :: uint32_t where "DMA1_Stream7 = 0x400260B8"
definition DMA2_Stream3 :: uint32_t where "DMA2_Stream3 = 0x40026458"

text \<open>The line settings the driver hands to the peripheral library.\<close>

datatype USART_WordLength = USART_WordLength_8b | USART_WordLength_9b
datatype USART_StopBits = USART_StopBits_1 | USART_StopBits_2
datatype USART_Parity = USART_Parity_No | USART_Parity_Even | USART_Parity_Odd
datatype USART_HardwareFlowControl =
  USART_HardwareFlowControl_None | USART_HardwareFlowControl_CTS
  | USART_HardwareFlowControl_RTS | USART_HardwareFlowControl_RTS_CTS

record USART_InitTypeDef =
  USART_BaudRate :: uint32_t
  USART_WordLength :: USART_WordLength
  USART_StopBits :: USART_StopBits
  USART_Parity :: USART_Parity
  USART_HardwareFlowControl :: USART_HardwareFlowControl

subsection \<open>Calls to the RTOS and the platform\<close>

datatype semaphore_id = TX_COMPLETE | RX_COMPLETE | SEM_WAKEUP

text \<open>
  The calls to collaborators outside the driver are recorded in order, with the
  arguments that matter here.
\<close>

datatype call =
  Powersave_disable
  | Powersave_enable
  | Lock_mutex
  | Unlock_mutex
  | Init_mutex
  | Deinit_mutex
  | Init_semaphore semaphore_id
  | Deinit_semaphore semaphore_id
  | Set_semaphore semaphore_id
  | Get_semaphore semaphore_id uint32_t OSStatus
  | Create_thread
  | Gpio_set_alternate_function nat nat
  | Peripheral_clock nat bool
  | Usart_init USART_InitTypeDef
  | Dma_init bool bool uint32_t

subsection \<open>The driver instance and its hardware\<close>

record uart =
  peripheral :: platform_uart_t
  rx_buffer :: "ring_buffer_t option"
  rx_size :: uint32_t
  tx_size :: uint32_t
  last_transmit_result :: OSStatus
  last_receive_result :: OSStatus
  tx_complete :: bool
  rx_complete :: bool
  sem_wakeup :: "bool option"
  tx_mutex :: bool
  usart :: USART_TypeDef
  tx_stream :: DMA_Stream_TypeDef
  rx_stream :: DMA_Stream_TypeDef
  dma_isr :: "dma_status_reg \<Rightarrow> uint32_t"
  nvic :: "nat set"
  ahb1enr :: "DMA_TypeDef set"
  rx_overrun :: bool
  calls :: "call list"

text \<open>
  \<open>usart\<close> holds the registers of \<^verbatim>\<open>peripheral->port\<close>, \<open>tx_stream\<close> and
  \<open>rx_stream\<close> those of the two streams of the peripheral description (two different
  streams), \<open>dma_isr\<close> the pending-flag registers of both controllers, \<open>nvic\<close> the
  enabled interrupt vectors, \<open>ahb1enr\<close> the enabled DMA clocks. A semaphore is binary:
  \<open>True\<close> when a signal is pending. \<open>sem_wakeup\<close> is a handle the code tests against
  null. \<open>rx_overrun\<close> is no register: it records that the receive stream, storing
  into the ring buffer, has caught up with the head cursor, after which bytes the
  driver has not read are overwritten.
\<close>

definition record_call :: "call \<Rightarrow> uart \<Rightarrow> uart" where
  "record_call c s = s\<lparr>calls := calls s @ [c]\<rparr>"

subsection \<open>DMA pending flags\<close>

text \<open>
  Writing a mask to an interrupt flag clear register clears these bits of the
  status register beside it.
\<close>

definition DMA_IFCR_write :: "dma_status_reg \<Rightarrow> uint32_t \<Rightarrow> uart \<Rightarrow> uart" where
  "DMA_IFCR_write r flags s = s\<lparr>dma_isr := (dma_isr s)(r := dma_isr s r AND NOT flags)\<rparr>"

definition dma_status_reg_of :: "uint32_t \<Rightarrow> dma_status_reg" where
  "dma_status_reg_of strm =
     (if strm \<le> DMA1_Stream3 then DMA1_LISR
      else if strm \<le> DMA1_Stream7 then DMA1_HISR
      else if strm \<le> DMA2_Stream3 then DMA2_LISR
      else DMA2_HISR)"

definition clear_dma_interrupts :: "uint32_t \<Rightarrow> uint32_t \<Rightarrow> uart \<Rightarrow> uart" where
  "clear_dma_interrupts strm flags s =
     (if strm \<le> DMA1_Stream3 then DMA_IFCR_write DMA1_LISR flags s
      else if strm \<le> DMA1_Stream7 then DMA_IFCR_write DMA1_HISR flags s
      else if strm \<le> DMA2_Stream3 then DMA_IFCR_write DMA2_LISR flags s
      else DMA_IFCR_write DMA2_HISR flags s)"

definition get_dma_irq_status :: "uint32_t \<Rightarrow> uart \<Rightarrow> uint32_t" where
  "get_dma_irq_status strm s =
     (if strm \<le> DMA1_Stream3 then dma_isr s DMA1_LISR
      else if strm \<le> DMA1_Stream7 then dma_isr s DMA1_HISR
      else if strm \<le> DMA2_Stream3 then dma_isr s DMA2_LISR
      else dma_isr s DMA2_HISR)"

subsection \<open>Semaphores\<close>

text \<open>
  Modelled from the spec: \<^verbatim>\<open>mico_rtos_set_semaphore\<close> is not among the sources. A
  completion signal is binary; signalling it leaves one pending signal.
\<close>

definition mico_rtos_set_semaphore :: "semaphore_id \<Rightarrow> uart \<Rightarrow> uart" where
  "mico_rtos_set_semaphore i s =
     record_call (Set_semaphore i)
       (case i of
          TX_COMPLETE \<Rightarrow> s\<lparr>tx_complete := True\<rparr>
        | RX_COMPLETE \<Rightarrow> s\<lparr>rx_complete := True\<rparr>
        | SEM_WAKEUP \<Rightarrow> s\<lparr>sem_wakeup := Some True\<rparr>)"

definition pending :: "semaphore_id \<Rightarrow> uart \<Rightarrow> bool" where
  "pending i s =
     (case i of
        TX_COMPLETE \<Rightarrow> tx_complete s
      | RX_COMPLETE \<Rightarrow> rx_complete s
      | SEM_WAKEUP \<Rightarrow> sem_wakeup s = Some True)"

definition take_signal :: "semaphore_id \<Rightarrow> uart \<Rightarrow> uart" where
  "take_signal i s =
     (case i of
        TX_COMPLETE \<Rightarrow> s\<lparr>tx_complete := False\<rparr>
      | RX_COMPLETE \<Rightarrow> s\<lparr>rx_complete := False\<rparr>
      | SEM_WAKEUP \<Rightarrow> s\<lparr>sem_wakeup := Some False\<rparr>)"

subsection \<open>Interrupt service routines\<close>

text \<open>
  The status register of the USART is cleared by writing zeros: a bit written as 1
  keeps its value.
\<close>

definition USART_SR_write :: "usart_sr_bit set \<Rightarrow> uart \<Rightarrow> uart" where
  "USART_SR_write v s = s\<lparr>usart := (usart s)\<lparr>SR := SR (usart s) \<inter> v\<rparr>\<rparr>"

definition platform_uart_irq :: "uart \<Rightarrow> fault + uart" where
  "platform_uart_irq s0 =
     (let s = USART_SR_write (SR (usart s0) \<union> UNIV) s0 in
      case rx_buffer s of
        None \<Rightarrow> Inl NullPointer
      | Some rb0 \<Rightarrow>
          let rb = rb0\<lparr>tail := size rb0 - NDTR (rx_stream s)\<rparr>;
              s1 = s\<lparr>rx_buffer := Some rb\<rparr>;
              wake = (\<lambda>s. case sem_wakeup s of
                             None \<Rightarrow> s
                           | Some _ \<Rightarrow> mico_rtos_set_semaphore SEM_WAKEUP s)
          in if rx_size s1 > 0
             then (case ring_buffer_used_space rb of
                     Inl f \<Rightarrow> Inl f
                   | Inr used \<Rightarrow>
                       if used \<ge> rx_size s1
                       then Inr (wake ((mico_rtos_set_semaphore RX_COMPLETE s1)\<lparr>rx_size := 0\<rparr>))
                       else Inr (wake s1))
             else Inr (wake s1))"

definition platform_uart_tx_dma_irq :: "uart \<Rightarrow> uart" where
  "platform_uart_tx_dma_irq s0 =
     (let cfg = tx_dma_config (peripheral s0);
          s1 = (if get_dma_irq_status (stream cfg) s0 AND complete_flags cfg \<noteq> 0
                then (clear_dma_interrupts (stream cfg) (complete_flags cfg) s0)
                       \<lparr>last_transmit_result := kNoErr\<rparr>
                else s0);
          s2 = (if get_dma_irq_status (stream cfg) s1 AND error_flags cfg \<noteq> 0
                then (clear_dma_interrupts (stream cfg) (error_flags cfg) s1)
                       \<lparr>last_transmit_result := kGeneralErr\<rparr>
                else s1)
      in if tx_size s2 > 0 then mico_rtos_set_semaphore TX_COMPLETE s2 else s2)"

definition platform_uart_rx_dma_irq :: "uart \<Rightarrow> uart" where
  "platform_uart_rx_dma_irq s0 =
     (let cfg = rx_dma_config (peripheral s0);
          s1 = (if get_dma_irq_status (stream cfg) s0 AND complete_flags cfg \<noteq> 0
                then (clear_dma_interrupts (stream cfg) (complete_flags cfg) s0)
                       \<lparr>last_receive_result := kNoErr\<rparr>
                else s0);
          s2 = (if get_dma_irq_status (stream cfg) s1 AND error_flags cfg \<noteq> 0
                then (clear_dma_interrupts (stream cfg) (error_flags cfg) s1)
                       \<lparr>last_receive_result := kGeneralErr\<rparr>
                else s1)
      in if rx_size s2 > 0 then mico_rtos_set_semaphore RX_COMPLETE s2 else s2)"

subsection \<open>Hardware events and waiting\<close>

text \<open>
  What happens while the task waits: the hardware raises pending flags of a stream,
  the receive stream stores a byte, the transmitter becomes empty, the platform
  dispatches one of the three handlers, or the timer of the pending wait expires.
\<close>

datatype event =
  HW_TX_DMA_FLAGS uint32_t
  | HW_RX_DMA_FLAGS uint32_t
  | HW_RX_BYTE uint8_t
  | HW_USART_TC
  | IRQ_UART
  | IRQ_TX_DMA
  | IRQ_RX_DMA
  | TIMEOUT

definition raise_dma_flags :: "uint32_t \<Rightarrow> uint32_t \<Rightarrow> uart \<Rightarrow> uart" where
  "raise_dma_flags strm flags s =
     s\<lparr>dma_isr := (dma_isr s)(dma_status_reg_of strm := dma_isr s (dma_status_reg_of strm) OR flags)\<rparr>"

text \<open>
  An enabled receive stream with a request from the USART stores the byte at offset
  \<open>NDTR_reload - NDTR\<close> of its memory target and counts down; at zero it reloads in
  circular mode and stops otherwise. The memory is modelled where the target is the
  store of the ring buffer; there the next offset reaching the head cursor is an
  overrun.
\<close>

definition dma_rx_byte :: "uint8_t \<Rightarrow> uart \<Rightarrow> uart" where
  "dma_rx_byte b s =
     (let st = rx_stream s in
      if DMA_SxCR_EN \<in> CR st \<and> USART_DMAReq_Rx \<in> CR3 (usart s) \<and> NDTR st \<noteq> 0
      then
        let st1 = (if NDTR st - 1 \<noteq> 0 then st\<lparr>NDTR := NDTR st - 1\<rparr>
                   else if DMA_SxCR_CIRC \<in> CR st then st\<lparr>NDTR := NDTR_reload st\<rparr>
                   else st\<lparr>NDTR := 0, CR := CR st - {DMA_SxCR_EN}\<rparr>);
            s1 = (case rx_buffer s of
                    None \<Rightarrow> s
                  | Some rb \<Rightarrow>
                      if M0AR st = buffer rb
                      then s\<lparr>rx_buffer :=
                             Some (rb\<lparr>store := (store rb)(unat (NDTR_reload st - NDTR st) := b)\<rparr>),
                            rx_overrun :=
                              (rx_overrun s \<or> NDTR_reload st - NDTR st1 = head rb)\<rparr>
                      else s)
        in s1\<lparr>rx_stream := st1\<rparr>
      else s)"

fun step :: "event \<Rightarrow> uart \<Rightarrow> fault + uart" where
  "step (HW_TX_DMA_FLAGS w) s = Inr (raise_dma_flags (stream (tx_dma_config (peripheral s))) w s)"
| "step (HW_RX_DMA_FLAGS w) s = Inr (raise_dma_flags (stream (rx_dma_config (peripheral s))) w s)"
| "step (HW_RX_BYTE b) s = Inr (dma_rx_byte b s)"
| "step HW_USART_TC s = Inr (s\<lparr>usart := (usart s)\<lparr>SR := insert USART_SR_TC (SR (usart s))\<rparr>\<rparr>)"
| "step IRQ_UART s = platform_uart_irq s"
| "step IRQ_TX_DMA s = Inr (platform_uart_tx_dma_irq s)"
| "step IRQ_RX_DMA s = Inr (platform_uart_rx_dma_irq s)"
| "step TIMEOUT s = Inr s"

fun run_events :: "event list \<Rightarrow> uart \<Rightarrow> fault + uart" where
  "run_events [] s = Inr s"
| "run_events (e # es) s = (case step e s of Inl f \<Rightarrow> Inl f | Inr s' \<Rightarrow> run_events es s')"

text \<open>
  Modelled from the spec: \<^verbatim>\<open>mico_rtos_get_semaphore\<close> is not among the sources. The
  task blocks until the signal is pending (and takes it: success) or the timeout
  elapses (timeout error); a timeout of zero does not wait, the never-timeout value
  waits for ever. While the task is blocked the events happen one by one. When no
  event is left only time passes.
\<close>

fun mico_rtos_get_semaphore ::
  "semaphore_id \<Rightarrow> uint32_t \<Rightarrow> event list \<Rightarrow> uart \<Rightarrow> fault + (OSStatus \<times> uart \<times> event list)"
where
  "mico_rtos_get_semaphore i timeout [] s =
     (if pending i s
      then Inr (kNoErr, record_call (Get_semaphore i timeout kNoErr) (take_signal i s), [])
      else if timeout = MICO_NEVER_TIMEOUT then Inl NeverReturns
      else Inr (kTimeoutErr, record_call (Get_semaphore i timeout kTimeoutErr) s, []))"
| "mico_rtos_get_semaphore i timeout (e # es) s =
     (if pending i s
      then Inr (kNoErr, record_call (Get_semaphore i timeout kNoErr) (take_signal i s), e # es)
      else if timeout = 0
      then Inr (kTimeoutErr, record_call (Get_semaphore i timeout kTimeoutErr) s, e # es)
      else if e = TIMEOUT \<and> timeout \<noteq> MICO_NEVER_TIMEOUT
      then Inr (kTimeoutErr, record_call (Get_semaphore i timeout kTimeoutErr) s, es)
      else (case step e s of
              Inl f \<Rightarrow> Inl f
            | Inr s' \<Rightarrow> mico_rtos_get_semaphore i timeout es s'))"

text \<open>
  Modelled from the spec: \<^verbatim>\<open>mico_rtos_lock_mutex\<close> and \<^verbatim>\<open>mico_rtos_unlock_mutex\<close>
  are not among the sources. The mutex serializes transmitting tasks; with one task,
  a mutex that is held is never released.
\<close>

definition mico_rtos_lock_mutex :: "uart \<Rightarrow> fault + uart" where
  "mico_rtos_lock_mutex s =
     (if tx_mutex s then Inl NeverReturns
      else Inr (record_call Lock_mutex (s\<lparr>tx_mutex := True\<rparr>)))"

definition mico_rtos_unlock_mutex :: "uart \<Rightarrow> uart" where
  "mico_rtos_unlock_mutex s = record_call Unlock_mutex (s\<lparr>tx_mutex := False\<rparr>)"

subsection \<open>Calls into the peripheral library\<close>

text \<open>
  Modelled from the spec: the functions of the peripheral library
  (\<^verbatim>\<open>USART_DMACmd\<close>, \<^verbatim>\<open>USART_ClearFlag\<close>, \<^verbatim>\<open>USART_ClearITPendingBit\<close>,
  \<^verbatim>\<open>USART_ITConfig\<close>, \<^verbatim>\<open>USART_Cmd\<close>, \<^verbatim>\<open>USART_DeInit\<close>, \<^verbatim>\<open>USART_Init\<close>,
  \<^verbatim>\<open>DMA_DeInit\<close>, \<^verbatim>\<open>DMA_Init\<close>, \<^verbatim>\<open>DMA_ITConfig\<close>, \<^verbatim>\<open>NVIC_EnableIRQ\<close>,
  \<^verbatim>\<open>NVIC_DisableIRQ\<close>) are not among the sources. Each is the control surface the
  spec names: enable or disable a request line, an interrupt source or a vector,
  clear a status flag, set up or tear down a channel.
\<close>

definition USART_DMACmd :: "usart_dmareq \<Rightarrow> bool \<Rightarrow> uart \<Rightarrow> uart" where
  "USART_DMACmd req enable s =
     s\<lparr>usart := (usart s)\<lparr>CR3 := (if enable then insert req (CR3 (usart s))
                                   else CR3 (usart s) - {req})\<rparr>\<rparr>"

definition USART_ClearFlag :: "usart_sr_bit \<Rightarrow> uart \<Rightarrow> uart" where
  "USART_ClearFlag b s = USART_SR_write (UNIV - {b}) s"

definition USART_ClearITPendingBit :: "usart_sr_bit \<Rightarrow> uart \<Rightarrow> uart" where
  "USART_ClearITPendingBit b s = USART_SR_write (UNIV - {b}) s"

definition USART_ITConfig_RXNE :: "bool \<Rightarrow> uart \<Rightarrow> uart" where
  "USART_ITConfig_RXNE enable s =
     s\<lparr>usart := (usart s)\<lparr>CR1 := (if enable then insert USART_CR1_RXNEIE (CR1 (usart s))
                                   else CR1 (usart s) - {USART_CR1_RXNEIE})\<rparr>\<rparr>"

definition USART_Cmd :: "bool \<Rightarrow> uart \<Rightarrow> uart" where
  "USART_Cmd enable s =
     s\<lparr>usart := (usart s)\<lparr>CR1 := (if enable then insert USART_CR1_UE (CR1 (usart s))
                                   else CR1 (usart s) - {USART_CR1_UE})\<rparr>\<rparr>"

definition USART_DeInit :: "uart \<Rightarrow> uart" where
  "USART_DeInit s = s\<lparr>usart := \<lparr>SR = {USART_SR_TC, USART_SR_TXE}, CR1 = {}, CR3 = {}\<rparr>\<rparr>"

definition USART_Init :: "USART_InitTypeDef \<Rightarrow> uart \<Rightarrow> uart" where
  "USART_Init cfg s =
     record_call (Usart_init cfg)
       (s\<lparr>usart := (usart s)\<lparr>CR1 := CR1 (usart s) \<union> {USART_CR1_TE, USART_CR1_RE}\<rparr>\<rparr>)"

definition DMA_reset :: DMA_Stream_TypeDef where
  "DMA_reset = \<lparr>CR = {}, NDTR = 0, NDTR_reload = 0, M0AR = 0\<rparr>"

definition DMA_DeInit_tx :: "uart \<Rightarrow> uart" where
  "DMA_DeInit_tx s = s\<lparr>tx_stream := DMA_reset\<rparr>"

definition DMA_DeInit_rx :: "uart \<Rightarrow> uart" where
  "DMA_DeInit_rx s = s\<lparr>rx_stream := DMA_reset\<rparr>"

text \<open>
  The driver initialises both streams in normal mode with a count of
  \<^verbatim>\<open>0xFFFF\<close> and memory address 0; the interrupt enables and the enable bit of
  the stream are left as they are.
\<close>

definition DMA_Init :: "DMA_Stream_TypeDef \<Rightarrow> DMA_Stream_TypeDef" where
  "DMA_Init st = NDTR_write 0xFFFF (st\<lparr>CR := CR st - {DMA_SxCR_CIRC}, M0AR := 0\<rparr>)"

definition DMA_ITConfig :: "dma_cr_bit set \<Rightarrow> bool \<Rightarrow> DMA_Stream_TypeDef \<Rightarrow> DMA_Stream_TypeDef" where
  "DMA_ITConfig flags enable st =
     st\<lparr>CR := (if enable then CR st \<union> flags else CR st - flags)\<rparr>"

definition NVIC_EnableIRQ :: "nat \<Rightarrow> uart \<Rightarrow> uart" where
  "NVIC_EnableIRQ v s = s\<lparr>nvic := insert v (nvic s)\<rparr>"

definition NVIC_DisableIRQ :: "nat \<Rightarrow> uart \<Rightarrow> uart" where
  "NVIC_DisableIRQ v s = s\<lparr>nvic := nvic s - {v}\<rparr>"

subsection \<open>Transmit\<close>

text \<open>
  The busy-wait on the transmission-complete bit of the status register. The bit is
  set by the hardware only, so the loop leaves when an event sets it.
\<close>

fun wait_USART_SR_TC :: "event list \<Rightarrow> uart \<Rightarrow> fault + (uart \<times> event list)" where
  "wait_USART_SR_TC [] s =
     (if USART_SR_TC \<in> SR (usart s) then Inr (s, []) else Inl NeverReturns)"
| "wait_USART_SR_TC (e # es) s =
     (if USART_SR_TC \<in> SR (usart s) then Inr (s, e # es)
      else (case step e s of
              Inl f \<Rightarrow> Inl f
            | Inr s' \<Rightarrow> wait_USART_SR_TC es s'))"

definition platform_uart_transmit_bytes ::
  "uart \<Rightarrow> uint32_t \<Rightarrow> uint32_t \<Rightarrow> event list \<Rightarrow> fault + (OSStatus \<times> uart \<times> event list)"
where
  "platform_uart_transmit_bytes s0 data_out sz env =
     (let exit = (\<lambda>err s env'.
            Inr (err, record_call Powersave_enable (mico_rtos_unlock_mutex s), env'))
      in
      case mico_rtos_lock_mutex (record_call Powersave_disable s0) of
        Inl f \<Rightarrow> Inl f
      | Inr s1 \<Rightarrow>
          if \<not> (data_out \<noteq> 0 \<and> sz \<noteq> 0) then exit kParamErr s1 env
          else
            let cfg = tx_dma_config (peripheral s1);
                s2 = clear_dma_interrupts (stream cfg) (complete_flags cfg OR error_flags cfg) s1;
                s3 = s2\<lparr>last_transmit_result := kGeneralErr, tx_size := sz\<rparr>;
                s4 = s3\<lparr>tx_stream := (tx_stream s3)\<lparr>CR := CR (tx_stream s3) - {DMA_SxCR_CIRC}\<rparr>\<rparr>;
                s5 = s4\<lparr>tx_stream := NDTR_write sz (tx_stream s4)\<rparr>;
                s6 = s5\<lparr>tx_stream := (tx_stream s5)\<lparr>M0AR := data_out\<rparr>\<rparr>;
                s7 = USART_ClearFlag USART_SR_TC (USART_DMACmd USART_DMAReq_Tx True s6);
                s8 = s7\<lparr>tx_stream := (tx_stream s7)\<lparr>CR := insert DMA_SxCR_EN (CR (tx_stream s7))\<rparr>\<rparr>
            in
            case mico_rtos_get_semaphore TX_COMPLETE MICO_NEVER_TIMEOUT env s8 of
              Inl f \<Rightarrow> Inl f
            | Inr (_, s9, env1) \<Rightarrow>
                (case wait_USART_SR_TC env1 s9 of
                   Inl f \<Rightarrow> Inl f
                 | Inr (s10, env2) \<Rightarrow>
                     let s11 = (USART_DMACmd USART_DMAReq_Tx False s10)\<lparr>tx_size := 0\<rparr>
                     in exit (last_transmit_result s11) s11 env2))"

subsection \<open>Receive\<close>

text \<open>
  The static \<^verbatim>\<open>receive_bytes\<close>: arm the receive stream on \<open>data\<close> for \<open>sz\<close> bytes,
  in circular mode with the byte interrupt when a ring buffer is present, and wait on
  the completion signal when the timeout is not zero.
\<close>

definition receive_bytes ::
  "uart \<Rightarrow> uint32_t \<Rightarrow> uint32_t \<Rightarrow> uint32_t \<Rightarrow> event list \<Rightarrow> fault + (OSStatus \<times> uart \<times> event list)"
where
  "receive_bytes s0 data sz timeout env =
     (let s1 = (if rx_buffer s0 \<noteq> None
                then USART_ITConfig_RXNE True
                       (USART_ClearITPendingBit USART_SR_RXNE
                          (s0\<lparr>rx_stream := (rx_stream s0)\<lparr>CR := insert DMA_SxCR_CIRC (CR (rx_stream s0))\<rparr>\<rparr>))
                else (s0\<lparr>rx_size := sz\<rparr>)
                       \<lparr>rx_stream := (rx_stream s0)\<lparr>CR := CR (rx_stream s0) - {DMA_SxCR_CIRC}\<rparr>\<rparr>);
          cfg = rx_dma_config (peripheral s1);
          s2 = clear_dma_interrupts (stream cfg) (complete_flags cfg OR error_flags cfg) s1;
          s3 = s2\<lparr>rx_stream := NDTR_write sz (rx_stream s2)\<rparr>;
          s4 = s3\<lparr>rx_stream := (rx_stream s3)\<lparr>M0AR := data\<rparr>\<rparr>;
          s5 = s4\<lparr>rx_stream := (rx_stream s4)\<lparr>CR := insert DMA_SxCR_EN (CR (rx_stream s4))\<rparr>\<rparr>;
          s6 = USART_DMACmd USART_DMAReq_Rx True s5
      in if timeout > 0 then mico_rtos_get_semaphore RX_COMPLETE timeout env s6
         else Inr (kNoErr, s6, env))"

text \<open>
  One pass of the \<^verbatim>\<open>do ... while\<close> loop that grabs data from the ring buffer: the
  contiguous bytes, cut to what is left of the chunk, are appended to the bytes written
  to the caller's buffer, the output pointer advances and the bytes are consumed.
\<close>

definition copy_once ::
  "uart \<Rightarrow> uint32_t \<Rightarrow> uint32_t \<Rightarrow> uint8_t list \<Rightarrow> fault + (uart \<times> uint32_t \<times> uint32_t \<times> uint8_t list)"
where
  "copy_once s data_in transfer_size out =
     (case rx_buffer s of
        None \<Rightarrow> Inl NullPointer
      | Some rb \<Rightarrow>
          (case ring_buffer_get_data rb of
             Inl f \<Rightarrow> Inl f
           | Inr (available_data, contiguous) \<Rightarrow>
               let bytes_available = min contiguous transfer_size;
                   out' = out @ map (store rb)
                            [unat available_data ..< unat available_data + unat bytes_available]
               in (case ring_buffer_consume rb bytes_available of
                     Inl f \<Rightarrow> Inl f
                   | Inr rb' \<Rightarrow>
                       Inr (s\<lparr>rx_buffer := Some rb'\<rparr>, data_in + bytes_available,
                            transfer_size - bytes_available, out'))))"

definition head_of :: "uart \<Rightarrow> uint32_t option" where
  "head_of s = map_option head (rx_buffer s)"

definition copy_measure :: "uart \<Rightarrow> uint32_t \<Rightarrow> nat" where
  "copy_measure s transfer_size =
     2 * unat transfer_size +
     (case rx_buffer s of None \<Rightarrow> 0 | Some rb \<Rightarrow> if head rb < size rb then 0 else 1)"

lemma copy_once_decreases:
  assumes "copy_once s d n out = Inr (s', d', n', out')"
    and "\<not> (n' = n \<and> head_of s' = head_of s)"
  shows "copy_measure s' n' < copy_measure s n"
proof -
  from assms(1) obtain rb where rb: "rx_buffer s = Some rb"
    by (auto simp: copy_once_def split: option.splits)
  from assms(1) rb have sz: "size rb \<noteq> 0"
    by (auto simp: copy_once_def ring_buffer_get_data_def split: if_splits)
  define c where "c = min (size rb - head rb) ((size rb - head rb + tail rb) mod size rb)"
  define b where "b = min c n"
  from assms(1) rb sz have n': "n' = n - b"
    and s': "rx_buffer s' = Some (rb\<lparr>head := (head rb + b) mod size rb\<rparr>)"
    by (auto simp: copy_once_def ring_buffer_get_data_def ring_buffer_consume_def
        Let_def b_def c_def)
  have ble: "b \<le> n" by (simp add: b_def)
  have hd': "(head rb + b) mod size rb < size rb"
    using sz by (simp add: word_mod_less_divisor word_greater_zero_iff)
  show ?thesis
  proof (cases "b = 0")
    case True
    with n' have "n' = n" by simp
    with assms(2) rb s' True have ne: "head rb mod size rb \<noteq> head rb"
      by (auto simp: head_of_def)
    have "\<not> head rb < size rb"
      using ne by (auto simp: mod_word_less)
    with hd' rb s' True \<open>n' = n\<close> show ?thesis
      by (simp add: copy_measure_def)
  next
    case False
    then have "0 < unat b" by (simp add: unat_gt_0)
    moreover have "unat b \<le> unat n" using ble by (simp add: word_le_nat_alt)
    moreover have "unat n' = unat n - unat b"
      using n' ble by (simp add: unat_sub)
    ultimately show ?thesis
      using rb s' by (auto simp: copy_measure_def split: if_splits)
  qed
qed

text \<open>
  The \<^verbatim>\<open>do ... while ( transfer_size != 0 )\<close> loop. A pass that copies nothing and
  leaves the head cursor where it was changes nothing, and no interrupt runs in
  between: the loop then spins for ever.
\<close>

function copy_chunk ::
  "uart \<Rightarrow> uint32_t \<Rightarrow> uint32_t \<Rightarrow> uint8_t list \<Rightarrow> fault + (uart \<times> uint32_t \<times> uint8_t list)"
where
  "copy_chunk s data_in transfer_size out =
     (case copy_once s data_in transfer_size out of
        Inl f \<Rightarrow> Inl f
      | Inr (s', data_in', transfer_size', out') \<Rightarrow>
          if transfer_size' \<noteq> 0
          then (if transfer_size' = transfer_size \<and> head_of s' = head_of s
                then Inl NeverReturns
                else copy_chunk s' data_in' transfer_size' out')
          else Inr (s', data_in', out'))"
  by pat_completeness auto
termination
  by (relation "measure (\<lambda>(s, d, n, out). copy_measure s n)")
    (auto dest: copy_once_decreases)

declare copy_chunk.simps [simp del]

text \<open>
  Waiting for a chunk: set the watermark, block on the completion signal, reset the
  watermark.
\<close>

definition wait_for_chunk ::
  "uart \<Rightarrow> uint32_t \<Rightarrow> uint32_t \<Rightarrow> event list \<Rightarrow> fault + (OSStatus \<times> uart \<times> event list)"
where
  "wait_for_chunk s transfer_size timeout env =
     (case mico_rtos_get_semaphore RX_COMPLETE timeout env
             (s\<lparr>last_receive_result := kNoErr, rx_size := transfer_size\<rparr>) of
        Inl f \<Rightarrow> Inl f
      | Inr (err, s1, env1) \<Rightarrow> Inr (err, s1\<lparr>rx_size := 0\<rparr>, env1))"

text \<open>
  One pass of the \<^verbatim>\<open>while ( expected_data_size != 0 )\<close> loop: either the wait fails
  and the function leaves with its error, or the chunk is copied and the loop goes on
  with the new error value, output pointer, remaining size and output.
\<close>

datatype chunk_result =
  Exit OSStatus "uint8_t list" uart "event list"
  | Next OSStatus uart uint32_t uint32_t "uint8_t list" "event list"

definition receive_one_chunk ::
  "uart \<Rightarrow> uint32_t \<Rightarrow> uint32_t \<Rightarrow> uint32_t \<Rightarrow> uint8_t list \<Rightarrow> event list \<Rightarrow> fault + chunk_result"
where
  "receive_one_chunk s data_in expected_data_size timeout_ms out env =
     (case rx_buffer s of
        None \<Rightarrow> Inl NullPointer
      | Some rb \<Rightarrow>
          let transfer_size = min (size rb div 2) expected_data_size in
          (case ring_buffer_used_space rb of
             Inl f \<Rightarrow> Inl f
           | Inr used \<Rightarrow>
               (case (if transfer_size > used
                      then wait_for_chunk s transfer_size timeout_ms env
                      else Inr (kNoErr, s, env)) of
                  Inl f \<Rightarrow> Inl f
                | Inr (err, s1, env1) \<Rightarrow>
                    if err \<noteq> kNoErr then Inr (Exit err out s1 env1)
                    else
                      (case copy_chunk s1 data_in transfer_size out of
                         Inl f \<Rightarrow> Inl f
                       | Inr (s2, data_in', out') \<Rightarrow>
                           Inr (Next (last_receive_result s1) s2 data_in'
                                  (expected_data_size - transfer_size) out' env1)))))"

text \<open>
  The \<^verbatim>\<open>while\<close> loop. The remaining size goes down by the chunk size; a chunk size
  of zero (a capacity of one byte) changes nothing and the loop spins for ever.
\<close>

function receive_chunks ::
  "uart \<Rightarrow> uint32_t \<Rightarrow> uint32_t \<Rightarrow> uint32_t \<Rightarrow> OSStatus \<Rightarrow> uint8_t list \<Rightarrow> event list
     \<Rightarrow> fault + (OSStatus \<times> uint8_t list \<times> uart \<times> event list)"
where
  "receive_chunks s data_in expected_data_size timeout_ms err out env =
     (if expected_data_size = 0 then Inr (err, out, s, env)
      else
        (case receive_one_chunk s data_in expected_data_size timeout_ms out env of
           Inl f \<Rightarrow> Inl f
         | Inr (Exit err' out' s' env') \<Rightarrow> Inr (err', out', s', env')
         | Inr (Next err' s' data_in' expected' out' env') \<Rightarrow>
             if expected' < expected_data_size
             then receive_chunks s' data_in' expected' timeout_ms err' out' env'
             else Inl NeverReturns))"
  by pat_completeness auto
termination
  by (relation "measure (\<lambda>(s, d, n, t, err, out, env). unat n)")
    (auto simp: word_less_nat_alt)

declare receive_chunks.simps [simp del]

text \<open>
  The result carries, beside the status, the bytes the driver copied to the caller's
  buffer, in address order. In direct mode the stream stores to the caller's buffer
  itself and the driver copies nothing.
\<close>

definition platform_uart_receive_bytes ::
  "uart \<Rightarrow> uint32_t \<Rightarrow> uint32_t \<Rightarrow> uint32_t \<Rightarrow> event list
     \<Rightarrow> fault + (OSStatus \<times> uint8_t list \<times> uart \<times> event list)"
where
  "platform_uart_receive_bytes s data_in expected_data_size timeout_ms env =
     (if \<not> (data_in \<noteq> 0 \<and> expected_data_size \<noteq> 0) then Inr (kParamErr, [], s, env)
      else if rx_buffer s \<noteq> None
      then receive_chunks s data_in expected_data_size timeout_ms kNoErr [] env
      else (case receive_bytes s data_in expected_data_size timeout_ms env of
              Inl f \<Rightarrow> Inl f
            | Inr (err, s', env') \<Rightarrow> Inr (err, [], s', env')))"

definition platform_uart_get_length_in_buffer :: "uart \<Rightarrow> fault + uint32_t" where
  "platform_uart_get_length_in_buffer s =
     (case rx_buffer s of
        None \<Rightarrow> Inl NullPointer
      | Some rb \<Rightarrow> ring_buffer_used_space rb)"

subsection \<open>Initialisation and deinitialisation\<close>

definition platform_uart_get_port_number :: "USART_port \<Rightarrow> nat" where
  "platform_uart_get_port_number u =
     (if u = USART1 then 0
      else if u = USART2 then 1
      else if u = USART3 then 2
      else if u = UART4 then 3
      else if u = UART5 then 4
      else if u = USART6 then 5
      else 0xff)"

text \<open>
  The tables indexed by the port number have six entries; an index past the end is a
  read out of bounds. The entries are the alternate function numbers and the
  interrupt vector numbers of the six ports.
\<close>

definition table_entry :: "nat list \<Rightarrow> nat \<Rightarrow> fault + nat" where
  "table_entry tab i = (if i < length tab then Inr (tab ! i) else Inl OutOfBounds)"

definition uart_alternate_functions :: "nat list" where
  "uart_alternate_functions = [7, 7, 7, 8, 8, 8]"

definition uart_irq_vectors :: "nat list" where
  "uart_irq_vectors = [37, 38, 39, 52, 53, 71]"

definition NUMBER_OF_UART_PORTS :: nat where
  "NUMBER_OF_UART_PORTS = 6"

text \<open>
  Modelled from the spec: \<^verbatim>\<open>mico_rtos_init_semaphore\<close>,
  \<^verbatim>\<open>mico_rtos_deinit_semaphore\<close>, \<^verbatim>\<open>mico_rtos_init_mutex\<close> and
  \<^verbatim>\<open>mico_rtos_deinit_mutex\<close> are not among the sources. A completion signal starts
  and ends with no signal pending, the mutex free.
\<close>

definition mico_rtos_init_semaphore :: "semaphore_id \<Rightarrow> uart \<Rightarrow> uart" where
  "mico_rtos_init_semaphore i s = record_call (Init_semaphore i) (take_signal i s)"

definition mico_rtos_deinit_semaphore :: "semaphore_id \<Rightarrow> uart \<Rightarrow> uart" where
  "mico_rtos_deinit_semaphore i s = record_call (Deinit_semaphore i) (take_signal i s)"

definition mico_rtos_init_mutex :: "uart \<Rightarrow> uart" where
  "mico_rtos_init_mutex s = record_call Init_mutex (s\<lparr>tx_mutex := False\<rparr>)"

definition mico_rtos_deinit_mutex :: "uart \<Rightarrow> uart" where
  "mico_rtos_deinit_mutex s = record_call Deinit_mutex (s\<lparr>tx_mutex := False\<rparr>)"

text \<open>The two \<^verbatim>\<open>switch\<close> statements: \<open>None\<close> is the \<^verbatim>\<open>default\<close> branch.\<close>

definition parity_setting :: "platform_uart_parity_t \<Rightarrow> USART_Parity option" where
  "parity_setting p =
     (case p of
        NO_PARITY \<Rightarrow> Some USART_Parity_No
      | EVEN_PARITY \<Rightarrow> Some USART_Parity_Even
      | ODD_PARITY \<Rightarrow> Some USART_Parity_Odd
      | PARITY_OTHER \<Rightarrow> None)"

definition flow_control_setting ::
  "platform_uart_flow_control_t \<Rightarrow> USART_HardwareFlowControl option" where
  "flow_control_setting f =
     (case f of
        FLOW_CONTROL_DISABLED \<Rightarrow> Some USART_HardwareFlowControl_None
      | FLOW_CONTROL_CTS \<Rightarrow> Some USART_HardwareFlowControl_CTS
      | FLOW_CONTROL_RTS \<Rightarrow> Some USART_HardwareFlowControl_RTS
      | FLOW_CONTROL_CTS_RTS \<Rightarrow> Some USART_HardwareFlowControl_RTS_CTS
      | FLOW_CONTROL_OTHER \<Rightarrow> None)"

text \<open>
  The first part of \<^verbatim>\<open>platform_uart_init\<close>, up to the clock of the port: the fields
  of the driver, the signals and the mutex, the pins, the wake-up thread.
\<close>

definition init_driver_and_pins ::
  "platform_uart_t \<Rightarrow> platform_uart_config_t \<Rightarrow> nat \<Rightarrow> nat \<Rightarrow> uart \<Rightarrow> uart" where
  "init_driver_and_pins p cfg uart_number af s0 =
     (let s1 = s0\<lparr>rx_size := 0, tx_size := 0, last_transmit_result := kNoErr,
                  last_receive_result := kNoErr, peripheral := p\<rparr>;
          s2 = mico_rtos_init_mutex
                 (mico_rtos_init_semaphore SEM_WAKEUP
                    (mico_rtos_init_semaphore RX_COMPLETE
                       (mico_rtos_init_semaphore TX_COMPLETE s1)));
          s3 = record_call (Gpio_set_alternate_function (pin_rx p) af)
                 (record_call (Gpio_set_alternate_function (pin_tx p) af) s2);
          s4 = (case pin_cts p of
                  None \<Rightarrow> s3
                | Some pin \<Rightarrow>
                    if flow_control cfg = FLOW_CONTROL_CTS \<or> flow_control cfg = FLOW_CONTROL_CTS_RTS
                    then record_call (Gpio_set_alternate_function pin af) s3 else s3);
          s5 = (case pin_rts p of
                  None \<Rightarrow> s4
                | Some pin \<Rightarrow>
                    if flow_control cfg = FLOW_CONTROL_RTS \<or> flow_control cfg = FLOW_CONTROL_CTS_RTS
                    then record_call (Gpio_set_alternate_function pin af) s4 else s4);
          s6 = (if UART_WAKEUP_ENABLE cfg
                then record_call Create_thread (mico_rtos_init_semaphore SEM_WAKEUP s5)
                else s5)
      in record_call (Peripheral_clock uart_number True) s6)"

text \<open>
  The middle part: the USART, the clock of the DMA controller, both streams, the
  transmit interrupt, the vector of the USART, transmitter and receiver.
\<close>

definition init_usart_and_dma ::
  "platform_uart_t \<Rightarrow> platform_uart_config_t \<Rightarrow> USART_InitTypeDef \<Rightarrow> nat \<Rightarrow> uart \<Rightarrow> uart" where
  "init_usart_and_dma p cfg uart_init_structure uart_vector s0 =
     (let s1 = USART_Init uart_init_structure (USART_DeInit s0);
          s2 = s1\<lparr>ahb1enr := insert (if controller (tx_dma_config p) = DMA1 then DMA1 else DMA2)
                                  (ahb1enr s1)\<rparr>;
          halfword = (data_width cfg = DATA_WIDTH_9BIT);
          s3 = record_call (Dma_init True halfword (channel (tx_dma_config p)))
                 ((DMA_DeInit_tx s2)\<lparr>tx_stream := DMA_Init (tx_stream (DMA_DeInit_tx s2))\<rparr>);
          s4 = record_call (Dma_init False halfword (channel (rx_dma_config p)))
                 ((DMA_DeInit_rx s3)\<lparr>rx_stream := DMA_Init (rx_stream (DMA_DeInit_rx s3))\<rparr>);
          s5 = NVIC_EnableIRQ (irq_vector (tx_dma_config p)) s4;
          s6 = clear_dma_interrupts (stream (tx_dma_config p))
                 (complete_flags (tx_dma_config p) OR error_flags (tx_dma_config p)) s5;
          s7 = s6\<lparr>tx_stream := DMA_ITConfig DMA_INTERRUPT_FLAGS True (tx_stream s6)\<rparr>;
          s8 = NVIC_EnableIRQ uart_vector s7;
          s9 = USART_DMACmd USART_DMAReq_Tx False s8;
          s10 = USART_Cmd True s9;
          s11 = s10\<lparr>usart := (usart s10)\<lparr>CR1 := insert USART_CR1_TE (CR1 (usart s10))\<rparr>\<rparr>
      in s11\<lparr>usart := (usart s11)\<lparr>CR1 := insert USART_CR1_RE (CR1 (usart s11))\<rparr>\<rparr>)"

definition platform_uart_init ::
  "uart \<Rightarrow> platform_uart_t option \<Rightarrow> platform_uart_config_t option \<Rightarrow> ring_buffer_t option
     \<Rightarrow> event list \<Rightarrow> fault + (OSStatus \<times> uart \<times> event list)"
where
  "platform_uart_init s0 peripheral_arg config_arg optional_ring_buffer env =
     (let exit = (\<lambda>err s env'. Inr (err, record_call Powersave_enable s, env'));
          s1 = record_call Powersave_disable s0
      in
      case (peripheral_arg, config_arg) of
        (Some p, Some cfg) \<Rightarrow>
          if \<not> (case optional_ring_buffer of
                   None \<Rightarrow> True
                 | Some rb \<Rightarrow> buffer rb \<noteq> 0 \<and> size rb \<noteq> 0)
          then exit kParamErr s1 env
          else
            let uart_number = platform_uart_get_port_number (port p) in
            (case table_entry uart_alternate_functions uart_number of
               Inl f \<Rightarrow> Inl f
             | Inr af \<Rightarrow>
                 let s2 = init_driver_and_pins p cfg uart_number af s1 in
                 (case parity_setting (parity cfg) of
                    None \<Rightarrow> exit kParamErr s2 env
                  | Some par \<Rightarrow>
                      (case flow_control_setting (flow_control cfg) of
                         None \<Rightarrow> exit kParamErr s2 env
                       | Some flow \<Rightarrow>
                           let uart_init_structure =
                                 \<lparr>USART_BaudRate = baud_rate cfg,
                                  USART_WordLength =
                                    (if data_width cfg = DATA_WIDTH_9BIT \<or>
                                        (data_width cfg = DATA_WIDTH_8BIT \<and> parity cfg \<noteq> NO_PARITY)
                                     then USART_WordLength_9b else USART_WordLength_8b),
                                  USART_StopBits =
                                    (if stop_bits cfg = STOP_BITS_1 then USART_StopBits_1
                                     else USART_StopBits_2),
                                  USART_Parity = par,
                                  USART_HardwareFlowControl = flow\<rparr>
                           in
                           (case table_entry uart_irq_vectors uart_number of
                              Inl f \<Rightarrow> Inl f
                            | Inr uart_vector \<Rightarrow>
                                let s3 = init_usart_and_dma p cfg uart_init_structure uart_vector s2 in
                                (case optional_ring_buffer of
                                   Some rb \<Rightarrow>
                                     (case receive_bytes (s3\<lparr>rx_buffer := Some rb, rx_size := 0\<rparr>)
                                             (buffer rb) (size rb) 0 env of
                                        Inl f \<Rightarrow> Inl f
                                      | Inr (_, s4, env') \<Rightarrow> exit kNoErr s4 env')
                                 | None \<Rightarrow>
                                     let s4 = NVIC_EnableIRQ (irq_vector (rx_dma_config p)) s3;
                                         s5 = clear_dma_interrupts (stream (rx_dma_config p))
                                                (complete_flags (rx_dma_config p) OR
                                                 error_flags (rx_dma_config p)) s4;
                                         s6 = s5\<lparr>rx_stream :=
                                                   DMA_ITConfig DMA_INTERRUPT_FLAGS True (rx_stream s5)\<rparr>
                                     in exit kNoErr s6 env)))))
      | _ \<Rightarrow> exit kParamErr s1 env)"

definition platform_uart_deinit :: "uart \<Rightarrow> fault + (OSStatus \<times> uart)" where
  "platform_uart_deinit s0 =
     (let s1 = record_call Powersave_disable s0;
          p = peripheral s1;
          uart_number = platform_uart_get_port_number (port p);
          s2 = USART_DeInit (USART_Cmd False s1);
          s3 = DMA_DeInit_rx (DMA_DeInit_tx s2);
          s4 = s3\<lparr>tx_stream := DMA_ITConfig DMA_INTERRUPT_FLAGS False (tx_stream s3)\<rparr>;
          s5 = s4\<lparr>rx_stream := DMA_ITConfig DMA_INTERRUPT_FLAGS False (rx_stream s4)\<rparr>;
          s6 = NVIC_DisableIRQ (irq_vector (tx_dma_config p)) s5;
          s7 = USART_ITConfig_RXNE False s6;
          s8 = NVIC_DisableIRQ (irq_vector (rx_dma_config p)) s7
      in
      if \<not> uart_number < NUMBER_OF_UART_PORTS then Inl OutOfBounds
      else
        let s9 = record_call (Peripheral_clock uart_number False) s8;
            s10 = mico_rtos_deinit_mutex
                    (mico_rtos_deinit_semaphore TX_COMPLETE
                       (mico_rtos_deinit_semaphore RX_COMPLETE s9));
            s11 = s10\<lparr>rx_size := 0, tx_size := 0, last_transmit_result := kNoErr,
                       last_receive_result := kNoErr\<rparr>
        in Inr (kNoErr, record_call Powersave_enable s11))"

subsection \<open>A concrete driver\<close>

text \<open>
  USART1 with its two streams of the second DMA controller (stream 7 transmits,
  stream 2 receives), an 8-byte ring buffer, and a driver instance that is all zero
  beside a reset hardware.
\<close>

definition example_peripheral :: platform_uart_t where
  "example_peripheral =
     \<lparr>port = USART1, pin_tx = 9, pin_rx = 10, pin_cts = None, pin_rts = None,
      tx_dma_config = \<lparr>controller = DMA2, stream = 0x400264B8, channel = 4, irq_vector = 70,
                        error_flags = 0x03400000, complete_flags = 0x08000000\<rparr>,
      rx_dma_config = \<lparr>controller = DMA2, stream = 0x40026440, channel = 4, irq_vector = 58,
                        error_flags = 0x000D0000, complete_flags = 0x00200000\<rparr>\<rparr>"

definition example_config :: platform_uart_config_t where
  "example_config =
     \<lparr>baud_rate = 115200, data_width = DATA_WIDTH_8BIT, parity = NO_PARITY,
      stop_bits = STOP_BITS_1, flow_control = FLOW_CONTROL_DISABLED,
      UART_WAKEUP_ENABLE = False\<rparr>"

definition example_ring_buffer :: ring_buffer_t where
  "example_ring_buffer =
     \<lparr>buffer = 0x20000000, store = (\<lambda>i. 0), size = 8, head = 0, tail = 0\<rparr>"

definition idle_uart :: uart where
  "idle_uart =
     \<lparr>peripheral = example_peripheral, rx_buffer = None, rx_size = 0, tx_size = 0,
      last_transmit_result = kNoErr, last_receive_result = kNoErr,
      tx_complete = False, rx_complete = False, sem_wakeup = None, tx_mutex = False,
      usart = \<lparr>SR = {USART_SR_TC, USART_SR_TXE}, CR1 = {}, CR3 = {}\<rparr>,
      tx_stream = DMA_reset, rx_stream = DMA_reset,
      dma_isr = (\<lambda>r. 0), nvic = {}, ahb1enr = {}, rx_overrun = False, calls = []\<rparr>"

text \<open>The calls recorded between two states.\<close>

definition new_calls :: "uart \<Rightarrow> uart \<Rightarrow> call list" where
  "new_calls s s' = drop (length (calls s)) (calls s')"

text \<open>A recorded call that signals a semaphore.\<close>

definition is_signal :: "call \<Rightarrow> bool" where
  "is_signal c = (case c of Set_semaphore i \<Rightarrow> True | _ \<Rightarrow> False)"

text \<open>The state in which transmit starts to wait for the completion signal.\<close>

definition armed :: "uart \<Rightarrow> uint32_t \<Rightarrow> uint32_t \<Rightarrow> uart" where
  "armed s1 data_out sz =
     (let cfg = tx_dma_config (peripheral s1);
          s2 = clear_dma_interrupts (stream cfg) (complete_flags cfg OR error_flags cfg) s1;
          s3 = s2\<lparr>last_transmit_result := kGeneralErr, tx_size := sz\<rparr>;
          s4 = s3\<lparr>tx_stream := (tx_stream s3)\<lparr>CR := CR (tx_stream s3) - {DMA_SxCR_CIRC}\<rparr>\<rparr>;
          s5 = s4\<lparr>tx_stream := NDTR_write sz (tx_stream s4)\<rparr>;
          s6 = s5\<lparr>tx_stream := (tx_stream s5)\<lparr>M0AR := data_out\<rparr>\<rparr>;
          s7 = USART_ClearFlag USART_SR_TC (USART_DMACmd USART_DMAReq_Tx True s6)
      in s7\<lparr>tx_stream := (tx_stream s7)\<lparr>CR := insert DMA_SxCR_EN (CR (tx_stream s7))\<rparr>\<rparr>)"

text \<open>The state in which the receive primitive starts to wait.\<close>

definition arm_receive :: "uart \<Rightarrow> uint32_t \<Rightarrow> uint32_t \<Rightarrow> uart" where
  "arm_receive s0 data sz =
     (let s1 = (if rx_buffer s0 \<noteq> None
                then USART_ITConfig_RXNE True
                       (USART_ClearITPendingBit USART_SR_RXNE
                          (s0\<lparr>rx_stream := (rx_stream s0)\<lparr>CR := insert DMA_SxCR_CIRC (CR (rx_stream s0))\<rparr>\<rparr>))
                else (s0\<lparr>rx_size := sz\<rparr>)
                       \<lparr>rx_stream := (rx_stream s0)\<lparr>CR := CR (rx_stream s0) - {DMA_SxCR_CIRC}\<rparr>\<rparr>);
          cfg = rx_dma_config (peripheral s1);
          s2 = clear_dma_interrupts (stream cfg) (complete_flags cfg OR error_flags cfg) s1;
          s3 = s2\<lparr>rx_stream := NDTR_write sz (rx_stream s2)\<rparr>;
          s4 = s3\<lparr>rx_stream := (rx_stream s3)\<lparr>M0AR := data\<rparr>\<rparr>;
          s5 = s4\<lparr>rx_stream := (rx_stream s4)\<lparr>CR := insert DMA_SxCR_EN (CR (rx_stream s4))\<rparr>\<rparr>
      in USART_DMACmd USART_DMAReq_Rx True s5)"

text \<open>A port of the tables, and line settings the two switches accept.\<close>

definition valid_port :: "USART_port \<Rightarrow> bool" where
  "valid_port u = (u \<noteq> USART_OTHER)"

definition valid_settings :: "platform_uart_t \<Rightarrow> platform_uart_config_t \<Rightarrow> bool" where
  "valid_settings p cfg =
     (valid_port (port p) \<and> parity cfg \<noteq> PARITY_OTHER \<and> flow_control cfg \<noteq> FLOW_CONTROL_OTHER)"

text \<open>The copy loop changes the head cursor of the ring buffer and nothing else.\<close>

definition moved_head :: "uart \<Rightarrow> uart \<Rightarrow> bool" where
  "moved_head s s' = (\<exists>rb h. rx_buffer s = Some rb \<and> s' = s\<lparr>rx_buffer := Some (rb\<lparr>head := h\<rparr>)\<rparr>)"

text \<open>Recorded calls with no wait that timed out among them.\<close>

definition no_timeout :: "call list \<Rightarrow> bool" where
  "no_timeout l = (\<forall>i t. Get_semaphore i t kTimeoutErr \<notin> set l)"

section \<open>Properties\<close>

subsection \<open>Auxiliary facts\<close>

lemma and_not_disjoint:
  fixes st cf ef :: uint32_t
  assumes "cf AND ef = 0"
  shows "(st AND NOT cf) AND ef = st AND ef"
proof (rule bit_eqI)
  fix n assume pb: "possible_bit TYPE(uint32_t) n"
  have "\<not> (bit cf n \<and> bit ef n)"
  proof
    assume "bit cf n \<and> bit ef n"
    then have "bit (cf AND ef) n" by (simp add: bit_and_iff)
    with assms show False by simp
  qed
  with pb show "bit ((st AND NOT cf) AND ef) n = bit (st AND ef) n"
    by (auto simp: bit_and_iff bit_not_iff)
qed

lemma get_dma_irq_status_eq:
  "get_dma_irq_status strm s = dma_isr s (dma_status_reg_of strm)"
  by (simp add: get_dma_irq_status_def dma_status_reg_of_def)

lemma clear_dma_interrupts_eq:
  "clear_dma_interrupts strm flags s = DMA_IFCR_write (dma_status_reg_of strm) flags s"
  by (simp add: clear_dma_interrupts_def dma_status_reg_of_def)

lemma mico_rtos_set_semaphore_fields [simp]:
  "rx_buffer (mico_rtos_set_semaphore i s) = rx_buffer s"
  "rx_size (mico_rtos_set_semaphore i s) = rx_size s"
  "tx_size (mico_rtos_set_semaphore i s) = tx_size s"
  "calls (mico_rtos_set_semaphore i s) = calls s @ [Set_semaphore i]"
  "tx_mutex (mico_rtos_set_semaphore i s) = tx_mutex s"
  "usart (mico_rtos_set_semaphore i s) = usart s"
  "rx_stream (mico_rtos_set_semaphore i s) = rx_stream s"
  "tx_stream (mico_rtos_set_semaphore i s) = tx_stream s"
  "peripheral (mico_rtos_set_semaphore i s) = peripheral s"
  "dma_isr (mico_rtos_set_semaphore i s) = dma_isr s"
  "last_transmit_result (mico_rtos_set_semaphore i s) = last_transmit_result s"
  "last_receive_result (mico_rtos_set_semaphore i s) = last_receive_result s"
  "nvic (mico_rtos_set_semaphore i s) = nvic s"
  by (simp_all add: mico_rtos_set_semaphore_def record_call_def split: semaphore_id.splits)

lemma mico_rtos_set_semaphore_tokens [simp]:
  "rx_complete (mico_rtos_set_semaphore i s) = (i = RX_COMPLETE \<or> rx_complete s)"
  "tx_complete (mico_rtos_set_semaphore i s) = (i = TX_COMPLETE \<or> tx_complete s)"
  "sem_wakeup (mico_rtos_set_semaphore i s) = (if i = SEM_WAKEUP then Some True else sem_wakeup s)"
  by (simp_all add: mico_rtos_set_semaphore_def record_call_def split: semaphore_id.splits)

lemma raise_dma_flags_fields [simp]:
  "rx_buffer (raise_dma_flags strm w s) = rx_buffer s"
  "rx_size (raise_dma_flags strm w s) = rx_size s"
  "tx_size (raise_dma_flags strm w s) = tx_size s"
  "calls (raise_dma_flags strm w s) = calls s"
  "tx_mutex (raise_dma_flags strm w s) = tx_mutex s"
  "usart (raise_dma_flags strm w s) = usart s"
  "rx_stream (raise_dma_flags strm w s) = rx_stream s"
  "tx_stream (raise_dma_flags strm w s) = tx_stream s"
  "peripheral (raise_dma_flags strm w s) = peripheral s"
  "rx_complete (raise_dma_flags strm w s) = rx_complete s"
  "tx_complete (raise_dma_flags strm w s) = tx_complete s"
  "sem_wakeup (raise_dma_flags strm w s) = sem_wakeup s"
  "last_transmit_result (raise_dma_flags strm w s) = last_transmit_result s"
  "last_receive_result (raise_dma_flags strm w s) = last_receive_result s"
  by (simp_all add: raise_dma_flags_def)

lemma dma_rx_byte_fields [simp]:
  "rx_size (dma_rx_byte b s) = rx_size s"
  "tx_size (dma_rx_byte b s) = tx_size s"
  "calls (dma_rx_byte b s) = calls s"
  "tx_mutex (dma_rx_byte b s) = tx_mutex s"
  "usart (dma_rx_byte b s) = usart s"
  "tx_stream (dma_rx_byte b s) = tx_stream s"
  "peripheral (dma_rx_byte b s) = peripheral s"
  "rx_complete (dma_rx_byte b s) = rx_complete s"
  "tx_complete (dma_rx_byte b s) = tx_complete s"
  "sem_wakeup (dma_rx_byte b s) = sem_wakeup s"
  "dma_isr (dma_rx_byte b s) = dma_isr s"
  "last_transmit_result (dma_rx_byte b s) = last_transmit_result s"
  "last_receive_result (dma_rx_byte b s) = last_receive_result s"
  by (simp_all add: dma_rx_byte_def Let_def split: option.splits)

lemma dma_rx_byte_rx_buffer [simp]:
  "rx_buffer (dma_rx_byte b s) = None \<longleftrightarrow> rx_buffer s = None"
  by (simp add: dma_rx_byte_def Let_def split: option.splits)

lemma DMA_IFCR_write_fields [simp]:
  "rx_buffer (DMA_IFCR_write r w s) = rx_buffer s"
  "rx_size (DMA_IFCR_write r w s) = rx_size s"
  "tx_size (DMA_IFCR_write r w s) = tx_size s"
  "calls (DMA_IFCR_write r w s) = calls s"
  "tx_mutex (DMA_IFCR_write r w s) = tx_mutex s"
  "usart (DMA_IFCR_write r w s) = usart s"
  "rx_stream (DMA_IFCR_write r w s) = rx_stream s"
  "tx_stream (DMA_IFCR_write r w s) = tx_stream s"
  "peripheral (DMA_IFCR_write r w s) = peripheral s"
  "rx_complete (DMA_IFCR_write r w s) = rx_complete s"
  "tx_complete (DMA_IFCR_write r w s) = tx_complete s"
  "sem_wakeup (DMA_IFCR_write r w s) = sem_wakeup s"
  "last_transmit_result (DMA_IFCR_write r w s) = last_transmit_result s"
  "last_receive_result (DMA_IFCR_write r w s) = last_receive_result s"
  "nvic (DMA_IFCR_write r w s) = nvic s"
  "ahb1enr (DMA_IFCR_write r w s) = ahb1enr s"
  by (simp_all add: DMA_IFCR_write_def)


lemma platform_uart_tx_dma_irq_fields [simp]:
  "rx_buffer (platform_uart_tx_dma_irq s) = rx_buffer s"
  "rx_size (platform_uart_tx_dma_irq s) = rx_size s"
  "tx_size (platform_uart_tx_dma_irq s) = tx_size s"
  "tx_mutex (platform_uart_tx_dma_irq s) = tx_mutex s"
  "usart (platform_uart_tx_dma_irq s) = usart s"
  "rx_stream (platform_uart_tx_dma_irq s) = rx_stream s"
  "tx_stream (platform_uart_tx_dma_irq s) = tx_stream s"
  "peripheral (platform_uart_tx_dma_irq s) = peripheral s"
  "rx_complete (platform_uart_tx_dma_irq s) = rx_complete s"
  "sem_wakeup (platform_uart_tx_dma_irq s) = sem_wakeup s"
  "last_receive_result (platform_uart_tx_dma_irq s) = last_receive_result s"
  "calls (platform_uart_tx_dma_irq s) =
     calls s @ (if tx_size s > 0 then [Set_semaphore TX_COMPLETE] else [])"
  "tx_complete (platform_uart_tx_dma_irq s) = (tx_complete s \<or> tx_size s > 0)"
  by (simp_all add: platform_uart_tx_dma_irq_def Let_def clear_dma_interrupts_eq)

lemma platform_uart_rx_dma_irq_fields [simp]:
  "rx_buffer (platform_uart_rx_dma_irq s) = rx_buffer s"
  "rx_size (platform_uart_rx_dma_irq s) = rx_size s"
  "tx_size (platform_uart_rx_dma_irq s) = tx_size s"
  "tx_mutex (platform_uart_rx_dma_irq s) = tx_mutex s"
  "usart (platform_uart_rx_dma_irq s) = usart s"
  "rx_stream (platform_uart_rx_dma_irq s) = rx_stream s"
  "tx_stream (platform_uart_rx_dma_irq s) = tx_stream s"
  "peripheral (platform_uart_rx_dma_irq s) = peripheral s"
  "tx_complete (platform_uart_rx_dma_irq s) = tx_complete s"
  "sem_wakeup (platform_uart_rx_dma_irq s) = sem_wakeup s"
  "last_transmit_result (platform_uart_rx_dma_irq s) = last_transmit_result s"
  "calls (platform_uart_rx_dma_irq s) =
     calls s @ (if rx_size s > 0 then [Set_semaphore RX_COMPLETE] else [])"
  "rx_complete (platform_uart_rx_dma_irq s) = (rx_complete s \<or> rx_size s > 0)"
  by (simp_all add: platform_uart_rx_dma_irq_def Let_def clear_dma_interrupts_eq)

lemma platform_uart_irq_frame:
  assumes "platform_uart_irq s = Inr s'"
  shows "tx_size s' = tx_size s" "tx_mutex s' = tx_mutex s" "usart s' = usart s"
    "rx_stream s' = rx_stream s" "tx_stream s' = tx_stream s" "peripheral s' = peripheral s"
    "tx_complete s' = tx_complete s" "dma_isr s' = dma_isr s"
    "last_transmit_result s' = last_transmit_result s"
    "last_receive_result s' = last_receive_result s"
    "rx_buffer s' = None \<longleftrightarrow> rx_buffer s = None"
    "\<exists>l. calls s' = calls s @ l \<and> (\<forall>c \<in> set l. is_signal c)
         \<and> (rx_size s = 0 \<longrightarrow> Set_semaphore RX_COMPLETE \<notin> set l)"
    "rx_size s = 0 \<Longrightarrow> rx_size s' = 0 \<and> rx_complete s' = rx_complete s"
  using assms
  by (auto simp: platform_uart_irq_def Let_def USART_SR_write_def is_signal_def
      split: option.splits sum.splits if_splits)

text \<open>What an event leaves alone.\<close>

lemma step_frame:
  assumes "step e s = Inr s'"
  shows "tx_mutex s' = tx_mutex s \<and> peripheral s' = peripheral s
       \<and> (\<exists>l. calls s' = calls s @ l \<and> (\<forall>c \<in> set l. is_signal c))
       \<and> (e \<noteq> HW_USART_TC \<longrightarrow> SR (usart s') \<subseteq> SR (usart s))
       \<and> (rx_buffer s' = None \<longleftrightarrow> rx_buffer s = None)"
proof (cases e)
  case IRQ_UART
  with assms have "platform_uart_irq s = Inr s'" by simp
  from platform_uart_irq_frame [OF this] show ?thesis by auto
qed (use assms in \<open>auto simp: is_signal_def\<close>)

text \<open>With no watermark set, no event signals the receive completion.\<close>

lemma step_no_waiter:
  assumes "step e s = Inr s'" and "rx_size s = 0"
  shows "rx_size s' = 0 \<and> rx_complete s' = rx_complete s
       \<and> (\<exists>l. calls s' = calls s @ l \<and> Set_semaphore RX_COMPLETE \<notin> set l)"
proof (cases e)
  case IRQ_UART
  with assms have "platform_uart_irq s = Inr s'" by simp
  from platform_uart_irq_frame(12,13) [OF this] assms(2) show ?thesis by auto
qed (use assms in auto)

lemma run_events_no_waiter:
  assumes "run_events es s = Inr s'" and "rx_size s = 0"
  shows "rx_size s' = 0 \<and> rx_complete s' = rx_complete s
       \<and> (\<exists>l. calls s' = calls s @ l \<and> Set_semaphore RX_COMPLETE \<notin> set l)"
  using assms
proof (induction es arbitrary: s)
  case Nil
  then show ?case by simp
next
  case (Cons e es)
  from Cons.prems(1) obtain s1 where s1: "step e s = Inr s1" and rest: "run_events es s1 = Inr s'"
    by (auto split: sum.splits)
  from step_no_waiter [OF s1 Cons.prems(2)] obtain l1 where
    a: "rx_size s1 = 0" "rx_complete s1 = rx_complete s"
       "calls s1 = calls s @ l1" "Set_semaphore RX_COMPLETE \<notin> set l1"
    by blast
  from Cons.IH [OF rest a(1)] obtain l2 where
    b: "rx_size s' = 0" "rx_complete s' = rx_complete s1"
       "calls s' = calls s1 @ l2" "Set_semaphore RX_COMPLETE \<notin> set l2"
    by blast
  from a b show ?case by auto
qed

lemma new_calls_append [simp]: "calls s' = calls s @ l \<Longrightarrow> new_calls s s' = l"
  by (simp add: new_calls_def)

lemma take_signal_fields [simp]:
  "rx_buffer (take_signal i s) = rx_buffer s"
  "rx_size (take_signal i s) = rx_size s"
  "tx_size (take_signal i s) = tx_size s"
  "calls (take_signal i s) = calls s"
  "tx_mutex (take_signal i s) = tx_mutex s"
  "usart (take_signal i s) = usart s"
  "rx_stream (take_signal i s) = rx_stream s"
  "tx_stream (take_signal i s) = tx_stream s"
  "peripheral (take_signal i s) = peripheral s"
  "dma_isr (take_signal i s) = dma_isr s"
  "last_transmit_result (take_signal i s) = last_transmit_result s"
  "last_receive_result (take_signal i s) = last_receive_result s"
  "nvic (take_signal i s) = nvic s"
  by (simp_all add: take_signal_def split: semaphore_id.splits)

lemma record_call_fields [simp]:
  "rx_buffer (record_call c s) = rx_buffer s"
  "rx_size (record_call c s) = rx_size s"
  "tx_size (record_call c s) = tx_size s"
  "calls (record_call c s) = calls s @ [c]"
  "tx_mutex (record_call c s) = tx_mutex s"
  "usart (record_call c s) = usart s"
  "rx_stream (record_call c s) = rx_stream s"
  "tx_stream (record_call c s) = tx_stream s"
  "peripheral (record_call c s) = peripheral s"
  "dma_isr (record_call c s) = dma_isr s"
  "last_transmit_result (record_call c s) = last_transmit_result s"
  "last_receive_result (record_call c s) = last_receive_result s"
  "nvic (record_call c s) = nvic s"
  "tx_complete (record_call c s) = tx_complete s"
  "rx_complete (record_call c s) = rx_complete s"
  "sem_wakeup (record_call c s) = sem_wakeup s"
  "ahb1enr (record_call c s) = ahb1enr s"
  by (simp_all add: record_call_def)

lemma get_semaphore_frame:
  assumes "mico_rtos_get_semaphore i t env s = Inr (e, s', env')"
  shows "tx_mutex s' = tx_mutex s \<and> peripheral s' = peripheral s
       \<and> (\<exists>l. calls s' = calls s @ l @ [Get_semaphore i t e] \<and> (\<forall>c \<in> set l. is_signal c))
       \<and> (e = kNoErr \<or> e = kTimeoutErr)
       \<and> (t = MICO_NEVER_TIMEOUT \<longrightarrow> e = kNoErr)
       \<and> (\<exists>pre. env = pre @ env')
       \<and> (HW_USART_TC \<notin> set env \<longrightarrow> SR (usart s') \<subseteq> SR (usart s))
       \<and> (rx_buffer s' = None \<longleftrightarrow> rx_buffer s = None)"
  using assms
proof (induction env arbitrary: s)
  case Nil
  then show ?case by (auto split: if_splits)
next
  case (Cons ev env)
  show ?case
  proof (cases "pending i s \<or> t = 0 \<or> (ev = TIMEOUT \<and> t \<noteq> MICO_NEVER_TIMEOUT)")
    case True
    with Cons.prems show ?thesis
      by (auto split: if_splits simp: MICO_NEVER_TIMEOUT_def intro: exI [of _ "[]"] exI [of _ "[ev]"])
  next
    case False
    with Cons.prems obtain s1 where s1: "step ev s = Inr s1"
      and rest: "mico_rtos_get_semaphore i t env s1 = Inr (e, s', env')"
      by (auto split: sum.splits)
    from step_frame [OF s1] obtain l1 where
      a: "tx_mutex s1 = tx_mutex s" "peripheral s1 = peripheral s"
         "calls s1 = calls s @ l1" "\<forall>c \<in> set l1. is_signal c"
         "ev \<noteq> HW_USART_TC \<longrightarrow> SR (usart s1) \<subseteq> SR (usart s)"
         "rx_buffer s1 = None \<longleftrightarrow> rx_buffer s = None"
      by auto
    from Cons.IH [OF rest] obtain l2 pre where
      b: "tx_mutex s' = tx_mutex s1" "peripheral s' = peripheral s1"
         "calls s' = calls s1 @ l2 @ [Get_semaphore i t e]" "\<forall>c \<in> set l2. is_signal c"
         "e = kNoErr \<or> e = kTimeoutErr" "t = MICO_NEVER_TIMEOUT \<longrightarrow> e = kNoErr"
         "env = pre @ env'"
         "HW_USART_TC \<notin> set env \<longrightarrow> SR (usart s') \<subseteq> SR (usart s1)"
         "rx_buffer s' = None \<longleftrightarrow> rx_buffer s1 = None"
      by auto
    have "calls s' = calls s @ (l1 @ l2) @ [Get_semaphore i t e] \<and> (\<forall>c \<in> set (l1 @ l2). is_signal c)"
      using a(3,4) b(3,4) by auto
    then have c: "\<exists>l. calls s' = calls s @ l @ [Get_semaphore i t e] \<and> (\<forall>c \<in> set l. is_signal c)"
      by (rule exI)
    have "ev # env = (ev # pre) @ env'" using b(7) by simp
    then have d: "\<exists>pre. ev # env = pre @ env'" by (rule exI)
    have e: "HW_USART_TC \<notin> set (ev # env) \<longrightarrow> SR (usart s') \<subseteq> SR (usart s)"
      using a(5) b(8) by auto
    show ?thesis using a(1,2,6) b(1,2,5,6,9) c d e by simp
  qed
qed

lemma wait_USART_SR_TC_frame:
  assumes "wait_USART_SR_TC env s = Inr (s', env')"
  shows "USART_SR_TC \<in> SR (usart s') \<and> tx_mutex s' = tx_mutex s \<and> peripheral s' = peripheral s
       \<and> (\<exists>l. calls s' = calls s @ l \<and> (\<forall>c \<in> set l. is_signal c))"
  using assms
proof (induction env arbitrary: s)
  case Nil
  then show ?case by (auto split: if_splits)
next
  case (Cons ev env)
  show ?case
  proof (cases "USART_SR_TC \<in> SR (usart s)")
    case True
    with Cons.prems show ?thesis by auto
  next
    case False
    with Cons.prems obtain s1 where s1: "step ev s = Inr s1"
      and rest: "wait_USART_SR_TC env s1 = Inr (s', env')"
      by (auto split: sum.splits)
    from step_frame [OF s1] obtain l1 where
      a: "tx_mutex s1 = tx_mutex s" "peripheral s1 = peripheral s"
         "calls s1 = calls s @ l1" "\<forall>c \<in> set l1. is_signal c"
      by auto
    from Cons.IH [OF rest] obtain l2 where
      b: "USART_SR_TC \<in> SR (usart s')" "tx_mutex s' = tx_mutex s1" "peripheral s' = peripheral s1"
         "calls s' = calls s1 @ l2" "\<forall>c \<in> set l2. is_signal c"
      by auto
    have "calls s' = calls s @ (l1 @ l2) \<and> (\<forall>c \<in> set (l1 @ l2). is_signal c)"
      using a(3,4) b(4,5) by auto
    then have "\<exists>l. calls s' = calls s @ l \<and> (\<forall>c \<in> set l. is_signal c)"
      by (rule exI)
    then show ?thesis using a(1,2) b(1,2,3) by simp
  qed
qed


lemma usart_calls_fields [simp]:
  "calls (USART_DMACmd r b s) = calls s" "tx_mutex (USART_DMACmd r b s) = tx_mutex s"
  "SR (usart (USART_DMACmd r b s)) = SR (usart s)"
  "last_transmit_result (USART_DMACmd r b s) = last_transmit_result s"
  "tx_size (USART_DMACmd r b s) = tx_size s"
  "peripheral (USART_DMACmd r b s) = peripheral s"
  "tx_complete (USART_DMACmd r b s) = tx_complete s"
  "dma_isr (USART_DMACmd r b s) = dma_isr s"
  "tx_stream (USART_DMACmd r b s) = tx_stream s"
  "calls (USART_ClearFlag f s) = calls s" "tx_mutex (USART_ClearFlag f s) = tx_mutex s"
  "SR (usart (USART_ClearFlag f s)) = SR (usart s) - {f}"
  "last_transmit_result (USART_ClearFlag f s) = last_transmit_result s"
  "tx_size (USART_ClearFlag f s) = tx_size s"
  "peripheral (USART_ClearFlag f s) = peripheral s"
  "tx_complete (USART_ClearFlag f s) = tx_complete s"
  "dma_isr (USART_ClearFlag f s) = dma_isr s"
  "tx_stream (USART_ClearFlag f s) = tx_stream s"
  by (auto simp: USART_DMACmd_def USART_ClearFlag_def USART_SR_write_def)

lemma armed_fields [simp]:
  "calls (armed s d n) = calls s" "tx_mutex (armed s d n) = tx_mutex s"
  "USART_SR_TC \<notin> SR (usart (armed s d n))"
  "tx_size (armed s d n) = n" "last_transmit_result (armed s d n) = kGeneralErr"
  "peripheral (armed s d n) = peripheral s" "tx_complete (armed s d n) = tx_complete s"
  "dma_isr (armed s d n) = (dma_isr s)
     (dma_status_reg_of (stream (tx_dma_config (peripheral s))) :=
        dma_isr s (dma_status_reg_of (stream (tx_dma_config (peripheral s))))
          AND NOT (complete_flags (tx_dma_config (peripheral s)) OR error_flags (tx_dma_config (peripheral s))))"
  by (simp_all add: armed_def Let_def clear_dma_interrupts_eq DMA_IFCR_write_def)

lemma transmit_valid:
  assumes "data_out \<noteq> 0" "sz \<noteq> 0" "\<not> tx_mutex s"
  shows "platform_uart_transmit_bytes s data_out sz env =
     (case mico_rtos_get_semaphore TX_COMPLETE MICO_NEVER_TIMEOUT env
             (armed (record_call Lock_mutex ((record_call Powersave_disable s)\<lparr>tx_mutex := True\<rparr>)) data_out sz) of
        Inl f \<Rightarrow> Inl f
      | Inr (e, s9, env1) \<Rightarrow>
          (case wait_USART_SR_TC env1 s9 of
             Inl f \<Rightarrow> Inl f
           | Inr (s10, env2) \<Rightarrow>
               Inr (last_transmit_result s10,
                    record_call Powersave_enable
                      (mico_rtos_unlock_mutex ((USART_DMACmd USART_DMAReq_Tx False s10)\<lparr>tx_size := 0\<rparr>)),
                    env2)))"
  using assms
  by (simp add: platform_uart_transmit_bytes_def mico_rtos_lock_mutex_def armed_def Let_def
      split: sum.splits prod.splits)


lemma tx_dma_irq_result:
  assumes "complete_flags (tx_dma_config (peripheral s)) AND error_flags (tx_dma_config (peripheral s)) = 0"
  shows "last_transmit_result (platform_uart_tx_dma_irq s) =
           (if dma_isr s (dma_status_reg_of (stream (tx_dma_config (peripheral s))))
                 AND error_flags (tx_dma_config (peripheral s)) \<noteq> 0 then kGeneralErr
            else if dma_isr s (dma_status_reg_of (stream (tx_dma_config (peripheral s))))
                 AND complete_flags (tx_dma_config (peripheral s)) \<noteq> 0 then kNoErr
            else last_transmit_result s)"
    and "dma_isr (platform_uart_tx_dma_irq s) (dma_status_reg_of (stream (tx_dma_config (peripheral s)))) =
           dma_isr s (dma_status_reg_of (stream (tx_dma_config (peripheral s))))
             AND NOT (if dma_isr s (dma_status_reg_of (stream (tx_dma_config (peripheral s))))
                         AND complete_flags (tx_dma_config (peripheral s)) \<noteq> 0
                      then complete_flags (tx_dma_config (peripheral s)) else 0)
             AND NOT (if dma_isr s (dma_status_reg_of (stream (tx_dma_config (peripheral s))))
                         AND error_flags (tx_dma_config (peripheral s)) \<noteq> 0
                      then error_flags (tx_dma_config (peripheral s)) else 0)"
  using and_not_disjoint [OF assms]
  by (simp_all add: Let_def platform_uart_tx_dma_irq_def get_dma_irq_status_eq clear_dma_interrupts_eq
      DMA_IFCR_write_def and.assoc)

lemma raised_complete_only:
  fixes st cf ef :: uint32_t
  assumes "cf AND ef = 0"
  shows "((st AND NOT (cf OR ef)) OR cf) AND ef = 0"
    and "((st AND NOT (cf OR ef)) OR cf) AND cf = cf"
proof -
  have d: "\<not> (bit cf n \<and> bit ef n)" for n
  proof
    assume "bit cf n \<and> bit ef n"
    then have "bit (cf AND ef) n" by (simp add: bit_and_iff)
    with assms show False by simp
  qed
  show "((st AND NOT (cf OR ef)) OR cf) AND ef = 0"
    by (rule bit_eqI) (use d in \<open>auto simp: bit_and_iff bit_or_iff bit_not_iff\<close>)
  show "((st AND NOT (cf OR ef)) OR cf) AND cf = cf"
    by (rule bit_eqI) (auto simp: bit_and_iff bit_or_iff bit_not_iff)
qed

lemma pending_tx [simp]: "pending TX_COMPLETE s = tx_complete s"
  by (simp add: pending_def)

lemma pending_rx [simp]: "pending RX_COMPLETE s = rx_complete s"
  by (simp add: pending_def)

lemma never_not_zero [simp]: "MICO_NEVER_TIMEOUT \<noteq> 0"
  by (simp add: MICO_NEVER_TIMEOUT_def)

lemma raise_dma_flags_isr [simp]:
  "dma_isr (raise_dma_flags strm w s) (dma_status_reg_of strm) = dma_isr s (dma_status_reg_of strm) OR w"
  by (simp add: raise_dma_flags_def)

lemma take_signal_tx [simp]:
  "tx_complete (take_signal TX_COMPLETE s) = False"
  "SR (usart (take_signal i s)) = SR (usart s)"
  by (simp_all add: take_signal_def split: semaphore_id.splits)

text \<open>
  The transmit-complete interrupt fires, then the transmitter runs empty: transmit
  returns success.
\<close>

lemma transmit_complete_scenario:
  assumes v: "data_out \<noteq> 0" "sz \<noteq> 0" and free: "\<not> tx_mutex s" and nosig: "\<not> tx_complete s"
    and cf: "complete_flags (tx_dma_config (peripheral s)) \<noteq> 0"
    and dis: "complete_flags (tx_dma_config (peripheral s)) AND error_flags (tx_dma_config (peripheral s)) = 0"
  shows "\<exists>s'. platform_uart_transmit_bytes s data_out sz
            (HW_TX_DMA_FLAGS (complete_flags (tx_dma_config (peripheral s))) # IRQ_TX_DMA
               # HW_USART_TC # rest) = Inr (kNoErr, s', rest) \<and> tx_size s' = 0"
proof -
  let ?cfg = "tx_dma_config (peripheral s)"
  let ?a = "armed (record_call Lock_mutex ((record_call Powersave_disable s)\<lparr>tx_mutex := True\<rparr>)) data_out sz"
  let ?a1 = "raise_dma_flags (stream ?cfg) (complete_flags ?cfg) ?a"
  let ?a2 = "platform_uart_tx_dma_irq ?a1"
  let ?a3 = "record_call (Get_semaphore TX_COMPLETE MICO_NEVER_TIMEOUT kNoErr) (take_signal TX_COMPLETE ?a2)"
  let ?a4 = "?a3\<lparr>usart := (usart ?a3)\<lparr>SR := insert USART_SR_TC (SR (usart ?a3))\<rparr>\<rparr>"
  have pa: "peripheral ?a = peripheral s" "\<not> tx_complete ?a" "tx_size ?a = sz"
    using nosig by simp_all
  have pa1: "peripheral ?a1 = peripheral s" "\<not> tx_complete ?a1" "tx_size ?a1 = sz"
    using pa by simp_all
  have "0 < sz" using v(2) by (simp add: word_greater_zero_iff)
  then have sig: "tx_complete ?a2" using pa1 by simp
  have g: "mico_rtos_get_semaphore TX_COMPLETE MICO_NEVER_TIMEOUT
             (HW_TX_DMA_FLAGS (complete_flags ?cfg) # IRQ_TX_DMA # HW_USART_TC # rest) ?a
           = Inr (kNoErr, ?a3, HW_USART_TC # rest)"
    using pa pa1 sig by simp
  have tc: "USART_SR_TC \<notin> SR (usart ?a3)" by simp
  have w: "wait_USART_SR_TC (HW_USART_TC # rest) ?a3 = Inr (?a4, rest)"
  proof (cases rest)
    case Nil
    with tc show ?thesis by simp
  next
    case (Cons e es)
    with tc show ?thesis by simp
  qed
  have isr1: "dma_isr ?a1 (dma_status_reg_of (stream ?cfg)) =
      (dma_isr s (dma_status_reg_of (stream ?cfg)) AND NOT (complete_flags ?cfg OR error_flags ?cfg))
        OR complete_flags ?cfg"
    by simp
  have dis1: "complete_flags (tx_dma_config (peripheral ?a1)) AND error_flags (tx_dma_config (peripheral ?a1)) = 0"
    using dis pa1 by simp
  have res: "last_transmit_result ?a2 = kNoErr"
    unfolding tx_dma_irq_result(1) [OF dis1] pa1(1) isr1
    using raised_complete_only [OF dis] cf by simp
  have "last_transmit_result ?a4 = kNoErr" using res by simp
  then show ?thesis
    unfolding transmit_valid [OF v free] g using w by (simp add: mico_rtos_unlock_mutex_def)
qed


lemma semaphore_init_fields [simp]:
  "rx_buffer (mico_rtos_init_semaphore i s) = rx_buffer s"
  "rx_size (mico_rtos_init_semaphore i s) = rx_size s"
  "tx_size (mico_rtos_init_semaphore i s) = tx_size s"
  "tx_mutex (mico_rtos_init_semaphore i s) = tx_mutex s"
  "usart (mico_rtos_init_semaphore i s) = usart s"
  "rx_stream (mico_rtos_init_semaphore i s) = rx_stream s"
  "tx_stream (mico_rtos_init_semaphore i s) = tx_stream s"
  "peripheral (mico_rtos_init_semaphore i s) = peripheral s"
  "dma_isr (mico_rtos_init_semaphore i s) = dma_isr s"
  "nvic (mico_rtos_init_semaphore i s) = nvic s"
  "ahb1enr (mico_rtos_init_semaphore i s) = ahb1enr s"
  "last_transmit_result (mico_rtos_init_semaphore i s) = last_transmit_result s"
  "last_receive_result (mico_rtos_init_semaphore i s) = last_receive_result s"
  "rx_buffer (mico_rtos_deinit_semaphore i s) = rx_buffer s"
  "rx_size (mico_rtos_deinit_semaphore i s) = rx_size s"
  "tx_size (mico_rtos_deinit_semaphore i s) = tx_size s"
  "tx_mutex (mico_rtos_deinit_semaphore i s) = tx_mutex s"
  "usart (mico_rtos_deinit_semaphore i s) = usart s"
  "rx_stream (mico_rtos_deinit_semaphore i s) = rx_stream s"
  "tx_stream (mico_rtos_deinit_semaphore i s) = tx_stream s"
  "peripheral (mico_rtos_deinit_semaphore i s) = peripheral s"
  "dma_isr (mico_rtos_deinit_semaphore i s) = dma_isr s"
  "nvic (mico_rtos_deinit_semaphore i s) = nvic s"
  "ahb1enr (mico_rtos_deinit_semaphore i s) = ahb1enr s"
  "last_transmit_result (mico_rtos_deinit_semaphore i s) = last_transmit_result s"
  "last_receive_result (mico_rtos_deinit_semaphore i s) = last_receive_result s"
  by (simp_all add: mico_rtos_init_semaphore_def mico_rtos_deinit_semaphore_def take_signal_def
      split: semaphore_id.splits)

lemma mutex_init_fields [simp]:
  "rx_buffer (mico_rtos_init_mutex s) = rx_buffer s"
  "rx_size (mico_rtos_init_mutex s) = rx_size s"
  "tx_size (mico_rtos_init_mutex s) = tx_size s"
  "usart (mico_rtos_init_mutex s) = usart s"
  "rx_stream (mico_rtos_init_mutex s) = rx_stream s"
  "tx_stream (mico_rtos_init_mutex s) = tx_stream s"
  "peripheral (mico_rtos_init_mutex s) = peripheral s"
  "dma_isr (mico_rtos_init_mutex s) = dma_isr s"
  "nvic (mico_rtos_init_mutex s) = nvic s"
  "ahb1enr (mico_rtos_init_mutex s) = ahb1enr s"
  "last_transmit_result (mico_rtos_init_mutex s) = last_transmit_result s"
  "last_receive_result (mico_rtos_init_mutex s) = last_receive_result s"
  "rx_buffer (mico_rtos_deinit_mutex s) = rx_buffer s"
  "rx_size (mico_rtos_deinit_mutex s) = rx_size s"
  "tx_size (mico_rtos_deinit_mutex s) = tx_size s"
  "usart (mico_rtos_deinit_mutex s) = usart s"
  "rx_stream (mico_rtos_deinit_mutex s) = rx_stream s"
  "tx_stream (mico_rtos_deinit_mutex s) = tx_stream s"
  "peripheral (mico_rtos_deinit_mutex s) = peripheral s"
  "dma_isr (mico_rtos_deinit_mutex s) = dma_isr s"
  "nvic (mico_rtos_deinit_mutex s) = nvic s"
  "ahb1enr (mico_rtos_deinit_mutex s) = ahb1enr s"
  "last_transmit_result (mico_rtos_deinit_mutex s) = last_transmit_result s"
  "last_receive_result (mico_rtos_deinit_mutex s) = last_receive_result s"
  by (simp_all add: mico_rtos_init_mutex_def mico_rtos_deinit_mutex_def)

lemma init_driver_and_pins_fields [simp]:
  "rx_buffer (init_driver_and_pins p cfg n af s) = rx_buffer s"
  "rx_size (init_driver_and_pins p cfg n af s) = 0"
  "tx_size (init_driver_and_pins p cfg n af s) = 0"
  "last_transmit_result (init_driver_and_pins p cfg n af s) = kNoErr"
  "last_receive_result (init_driver_and_pins p cfg n af s) = kNoErr"
  "peripheral (init_driver_and_pins p cfg n af s) = p"
  "usart (init_driver_and_pins p cfg n af s) = usart s"
  "rx_stream (init_driver_and_pins p cfg n af s) = rx_stream s"
  "tx_stream (init_driver_and_pins p cfg n af s) = tx_stream s"
  "dma_isr (init_driver_and_pins p cfg n af s) = dma_isr s"
  "nvic (init_driver_and_pins p cfg n af s) = nvic s"
  "ahb1enr (init_driver_and_pins p cfg n af s) = ahb1enr s"
  by (simp_all add: init_driver_and_pins_def Let_def split: option.splits)

lemma init_usart_and_dma_fields [simp]:
  "rx_buffer (init_usart_and_dma p cfg u v s) = rx_buffer s"
  "rx_size (init_usart_and_dma p cfg u v s) = rx_size s"
  "tx_size (init_usart_and_dma p cfg u v s) = tx_size s"
  "last_transmit_result (init_usart_and_dma p cfg u v s) = last_transmit_result s"
  "last_receive_result (init_usart_and_dma p cfg u v s) = last_receive_result s"
  "peripheral (init_usart_and_dma p cfg u v s) = peripheral s"
  "usart (init_usart_and_dma p cfg u v s) =
     \<lparr>SR = {USART_SR_TC, USART_SR_TXE},
      CR1 = {USART_CR1_RE, USART_CR1_TE, USART_CR1_UE}, CR3 = {}\<rparr>"
  "rx_stream (init_usart_and_dma p cfg u v s) =
     \<lparr>CR = {}, NDTR = 0xFFFF, NDTR_reload = 0xFFFF, M0AR = 0\<rparr>"
  "tx_stream (init_usart_and_dma p cfg u v s) =
     \<lparr>CR = DMA_INTERRUPT_FLAGS, NDTR = 0xFFFF, NDTR_reload = 0xFFFF, M0AR = 0\<rparr>"
  "nvic (init_usart_and_dma p cfg u v s) = insert v (insert (irq_vector (tx_dma_config p)) (nvic s))"
  by (auto simp: init_usart_and_dma_def Let_def USART_Init_def USART_DeInit_def DMA_DeInit_tx_def
      DMA_DeInit_rx_def DMA_Init_def DMA_reset_def NDTR_write_def NVIC_EnableIRQ_def
      clear_dma_interrupts_eq DMA_ITConfig_def USART_DMACmd_def USART_Cmd_def)

lemma receive_bytes_arm:
  "receive_bytes s data sz timeout env =
     (if timeout > 0 then mico_rtos_get_semaphore RX_COMPLETE timeout env (arm_receive s data sz)
      else Inr (kNoErr, arm_receive s data sz, env))"
  by (simp add: receive_bytes_def arm_receive_def Let_def)

lemma arm_receive_fields [simp]:
  "rx_buffer (arm_receive s data sz) = rx_buffer s"
  "peripheral (arm_receive s data sz) = peripheral s"
  "nvic (arm_receive s data sz) = nvic s"
  "tx_stream (arm_receive s data sz) = tx_stream s"
  "tx_size (arm_receive s data sz) = tx_size s"
  "last_transmit_result (arm_receive s data sz) = last_transmit_result s"
  "last_receive_result (arm_receive s data sz) = last_receive_result s"
  "calls (arm_receive s data sz) = calls s"
  "tx_mutex (arm_receive s data sz) = tx_mutex s"
  "rx_size (arm_receive s data sz) = (if rx_buffer s = None then sz else rx_size s)"
  "rx_stream (arm_receive s data sz) =
           \<lparr>CR = insert DMA_SxCR_EN
                   (if rx_buffer s = None then CR (rx_stream s) - {DMA_SxCR_CIRC}
                    else insert DMA_SxCR_CIRC (CR (rx_stream s))),
            NDTR = sz, NDTR_reload = sz, M0AR = data\<rparr>"
  "CR3 (usart (arm_receive s data sz)) = insert USART_DMAReq_Rx (CR3 (usart s))"
  "CR1 (usart (arm_receive s data sz)) =
           (if rx_buffer s = None then CR1 (usart s) else insert USART_CR1_RXNEIE (CR1 (usart s)))"
  by (auto simp: arm_receive_def Let_def clear_dma_interrupts_eq DMA_IFCR_write_def
      NDTR_write_def USART_DMACmd_def USART_ITConfig_RXNE_def USART_ClearITPendingBit_def
      USART_SR_write_def)

lemma valid_port_tables:
  assumes "valid_port u"
  shows "\<exists>af. table_entry uart_alternate_functions (platform_uart_get_port_number u) = Inr af"
    and "\<exists>v. table_entry uart_irq_vectors (platform_uart_get_port_number u) = Inr v"
    and "platform_uart_get_port_number u < NUMBER_OF_UART_PORTS"
  using assms
  by (cases u; simp add: valid_port_def table_entry_def uart_alternate_functions_def
      uart_irq_vectors_def platform_uart_get_port_number_def NUMBER_OF_UART_PORTS_def)+


lemma valid_settings_cases:
  assumes "valid_settings p cfg"
  obtains af v par fl where
    "table_entry uart_alternate_functions (platform_uart_get_port_number (port p)) = Inr af"
    "table_entry uart_irq_vectors (platform_uart_get_port_number (port p)) = Inr v"
    "parity_setting (parity cfg) = Some par"
    "flow_control_setting (flow_control cfg) = Some fl"
proof -
  from assms have vp: "valid_port (port p)" by (simp add: valid_settings_def)
  from valid_port_tables(1,2) [OF vp] obtain af v where
    "table_entry uart_alternate_functions (platform_uart_get_port_number (port p)) = Inr af"
    "table_entry uart_irq_vectors (platform_uart_get_port_number (port p)) = Inr v" by auto
  moreover from assms obtain par where "parity_setting (parity cfg) = Some par"
    by (cases "parity cfg") (auto simp: valid_settings_def parity_setting_def)
  moreover from assms obtain fl where "flow_control_setting (flow_control cfg) = Some fl"
    by (cases "flow_control cfg") (auto simp: valid_settings_def flow_control_setting_def)
  ultimately show thesis using that by blast
qed

lemma init_with_ring_buffer:
  assumes "valid_settings p cfg" and "buffer rb \<noteq> 0" and "size rb \<noteq> 0"
  shows "\<exists>s' v. platform_uart_init s (Some p) (Some cfg) (Some rb) env = Inr (kNoErr, s', env)
      \<and> table_entry uart_irq_vectors (platform_uart_get_port_number (port p)) = Inr v
      \<and> rx_buffer s' = Some rb
      \<and> rx_stream s' = \<lparr>CR = {DMA_SxCR_EN, DMA_SxCR_CIRC}, NDTR = size rb,
                          NDTR_reload = size rb, M0AR = buffer rb\<rparr>
      \<and> CR1 (usart s') = {USART_CR1_RXNEIE, USART_CR1_RE, USART_CR1_TE, USART_CR1_UE}
      \<and> CR3 (usart s') = {USART_DMAReq_Rx}
      \<and> nvic s' = insert v (insert (irq_vector (tx_dma_config p)) (nvic s))
      \<and> tx_stream s' = \<lparr>CR = DMA_INTERRUPT_FLAGS, NDTR = 0xFFFF, NDTR_reload = 0xFFFF, M0AR = 0\<rparr>
      \<and> peripheral s' = p
      \<and> rx_size s' = 0 \<and> tx_size s' = 0
      \<and> last_transmit_result s' = kNoErr \<and> last_receive_result s' = kNoErr"
proof -
  from assms(1) obtain af v par fl where
    t: "table_entry uart_alternate_functions (platform_uart_get_port_number (port p)) = Inr af"
       "table_entry uart_irq_vectors (platform_uart_get_port_number (port p)) = Inr v"
       "parity_setting (parity cfg) = Some par"
       "flow_control_setting (flow_control cfg) = Some fl"
    by (rule valid_settings_cases)
  show ?thesis
    using assms(2,3) t
    by (auto simp: platform_uart_init_def Let_def receive_bytes_arm)
qed

lemma init_without_ring_buffer:
  assumes "valid_settings p cfg"
  shows "\<exists>s' v. platform_uart_init s (Some p) (Some cfg) None env = Inr (kNoErr, s', env)
      \<and> table_entry uart_irq_vectors (platform_uart_get_port_number (port p)) = Inr v
      \<and> rx_buffer s' = rx_buffer s
      \<and> rx_stream s' = \<lparr>CR = DMA_INTERRUPT_FLAGS, NDTR = 0xFFFF, NDTR_reload = 0xFFFF, M0AR = 0\<rparr>
      \<and> CR1 (usart s') = {USART_CR1_RE, USART_CR1_TE, USART_CR1_UE}
      \<and> CR3 (usart s') = {}
      \<and> nvic s' = insert (irq_vector (rx_dma_config p))
                     (insert v (insert (irq_vector (tx_dma_config p)) (nvic s)))
      \<and> tx_stream s' = \<lparr>CR = DMA_INTERRUPT_FLAGS, NDTR = 0xFFFF, NDTR_reload = 0xFFFF, M0AR = 0\<rparr>
      \<and> peripheral s' = p
      \<and> rx_size s' = 0 \<and> tx_size s' = 0
      \<and> last_transmit_result s' = kNoErr \<and> last_receive_result s' = kNoErr"
proof -
  from assms(1) obtain af v par fl where
    t: "table_entry uart_alternate_functions (platform_uart_get_port_number (port p)) = Inr af"
       "table_entry uart_irq_vectors (platform_uart_get_port_number (port p)) = Inr v"
       "parity_setting (parity cfg) = Some par"
       "flow_control_setting (flow_control cfg) = Some fl"
    by (rule valid_settings_cases)
  show ?thesis
    using t
    by (auto simp: platform_uart_init_def Let_def NVIC_EnableIRQ_def clear_dma_interrupts_eq
        DMA_ITConfig_def)
qed

lemma deinit_result:
  assumes "valid_port (port (peripheral s))"
  shows "\<exists>s'. platform_uart_deinit s = Inr (kNoErr, s')
      \<and> rx_size s' = 0 \<and> tx_size s' = 0
      \<and> last_transmit_result s' = kNoErr \<and> last_receive_result s' = kNoErr
      \<and> rx_buffer s' = rx_buffer s \<and> peripheral s' = peripheral s
      \<and> tx_stream s' = DMA_reset \<and> rx_stream s' = DMA_reset
      \<and> usart s' = \<lparr>SR = {USART_SR_TC, USART_SR_TXE}, CR1 = {}, CR3 = {}\<rparr>
      \<and> nvic s' = nvic s - {irq_vector (tx_dma_config (peripheral s)),
                             irq_vector (rx_dma_config (peripheral s))}"
  using valid_port_tables(3) [OF assms]
  by (auto simp: platform_uart_deinit_def Let_def USART_Cmd_def USART_DeInit_def DMA_DeInit_tx_def
      DMA_DeInit_rx_def DMA_ITConfig_def DMA_reset_def NVIC_DisableIRQ_def USART_ITConfig_RXNE_def)


lemma example_valid: "valid_settings example_peripheral example_config"
  by (simp add: valid_settings_def valid_port_def example_peripheral_def example_config_def)


lemma moved_head_trans:
  assumes "moved_head s s1" and "moved_head s1 s2"
  shows "moved_head s s2"
proof -
  from assms(1) obtain rb h where a: "rx_buffer s = Some rb" "s1 = s\<lparr>rx_buffer := Some (rb\<lparr>head := h\<rparr>)\<rparr>"
    by (auto simp: moved_head_def)
  from assms(2) a obtain h' where "s2 = s1\<lparr>rx_buffer := Some (rb\<lparr>head := h'\<rparr>)\<rparr>"
    by (auto simp: moved_head_def)
  with a have "rx_buffer s = Some rb \<and> s2 = s\<lparr>rx_buffer := Some (rb\<lparr>head := h'\<rparr>)\<rparr>" by simp
  then show ?thesis unfolding moved_head_def by blast
qed

lemma moved_head_fields:
  assumes "moved_head s s'"
  shows "calls s' = calls s" "rx_size s' = rx_size s" "rx_complete s' = rx_complete s"
    "last_receive_result s' = last_receive_result s" "rx_stream s' = rx_stream s"
    "usart s' = usart s" "rx_overrun s' = rx_overrun s" "peripheral s' = peripheral s"
  using assms by (auto simp: moved_head_def)

lemma copy_once_moved_head:
  assumes "copy_once s d n out = Inr (s', d', n', out')"
  shows "moved_head s s'"
  using assms
  by (auto simp: copy_once_def moved_head_def ring_buffer_consume_def Let_def
      split: option.splits sum.splits prod.splits if_splits)

lemma copy_chunk_moved_head:
  "copy_chunk s d n out = Inr (s', d', out') \<Longrightarrow> moved_head s s'"
proof (induction s d n out rule: copy_chunk.induct)
  case (1 s data_in transfer_size out)
  from "1.prems" obtain s1 d1 n1 out1 where
    once: "copy_once s data_in transfer_size out = Inr (s1, d1, n1, out1)"
    by (cases "copy_once s data_in transfer_size out") (auto simp: copy_chunk.simps [of s])
  note mh = copy_once_moved_head [OF once]
  show ?case
  proof (cases "n1 \<noteq> 0")
    case False
    with "1.prems" once have "s' = s1" by (simp add: copy_chunk.simps [of s])
    with mh show ?thesis by simp
  next
    case True
    with "1.prems" once have ns: "\<not> (n1 = transfer_size \<and> head_of s1 = head_of s)"
      and rec: "copy_chunk s1 d1 n1 out1 = Inr (s', d', out')"
      by (auto simp: copy_chunk.simps [of s] split: if_splits)
    from "1.IH" [OF once refl refl refl True ns rec] have "moved_head s1 s'" .
    with mh show ?thesis by (rule moved_head_trans)
  qed
qed

lemma wait_for_chunk_frame:
  assumes "wait_for_chunk s n t env = Inr (e, s1, env1)"
  shows "rx_size s1 = 0"
    and "\<exists>l. calls s1 = calls s @ l @ [Get_semaphore RX_COMPLETE t e] \<and> (\<forall>c \<in> set l. is_signal c)"
    and "e = kNoErr \<or> e = kTimeoutErr"
proof -
  from assms obtain s2 where
    g: "mico_rtos_get_semaphore RX_COMPLETE t env (s\<lparr>last_receive_result := kNoErr, rx_size := n\<rparr>)
          = Inr (e, s2, env1)"
    and s1: "s1 = s2\<lparr>rx_size := 0\<rparr>"
    by (auto simp: wait_for_chunk_def split: sum.splits)
  from s1 show "rx_size s1 = 0" by simp
  from get_semaphore_frame [OF g] s1
  show "\<exists>l. calls s1 = calls s @ l @ [Get_semaphore RX_COMPLETE t e] \<and> (\<forall>c \<in> set l. is_signal c)"
    and "e = kNoErr \<or> e = kTimeoutErr"
    by auto
qed

lemma no_timeout_signals: "\<forall>c \<in> set l. is_signal c \<Longrightarrow> no_timeout l"
  by (auto simp: no_timeout_def is_signal_def)

lemma no_timeout_append [simp]: "no_timeout (l @ m) = (no_timeout l \<and> no_timeout m)"
  by (auto simp: no_timeout_def)

lemma no_timeout_simps [simp]:
  "no_timeout []" "no_timeout [Get_semaphore i t kNoErr]"
  by (simp_all add: no_timeout_def)

lemma receive_one_chunk_wait:
  assumes "rx_buffer s = Some rb" and "ring_buffer_used_space rb = Inr used"
    and "used < size rb div 2 \<and> used < n"
  shows "receive_one_chunk s d n t out env =
     (case wait_for_chunk s (min (size rb div 2) n) t env of
        Inl f \<Rightarrow> Inl f
      | Inr (err, s1, env1) \<Rightarrow>
          if err \<noteq> kNoErr then Inr (Exit err out s1 env1)
          else (case copy_chunk s1 d (min (size rb div 2) n) out of
                  Inl f \<Rightarrow> Inl f
                | Inr (s2, data_in', out') \<Rightarrow>
                    Inr (Next (last_receive_result s1) s2 data_in'
                           (n - min (size rb div 2) n) out' env1)))"
  using assms by (simp add: receive_one_chunk_def Let_def)

lemma receive_one_chunk_ready:
  assumes "rx_buffer s = Some rb" and "ring_buffer_used_space rb = Inr used"
    and "\<not> (used < size rb div 2 \<and> used < n)"
  shows "receive_one_chunk s d n t out env =
     (case copy_chunk s d (min (size rb div 2) n) out of
        Inl f \<Rightarrow> Inl f
      | Inr (s2, data_in', out') \<Rightarrow>
          Inr (Next (last_receive_result s) s2 data_in' (n - min (size rb div 2) n) out' env))"
  using assms by (auto simp: receive_one_chunk_def Let_def)

lemma receive_one_chunk_buffer:
  assumes "receive_one_chunk s d n t out env = Inr r"
  obtains rb used where "rx_buffer s = Some rb" "ring_buffer_used_space rb = Inr used"
proof (cases "rx_buffer s")
  case None
  with assms show ?thesis by (simp add: receive_one_chunk_def)
next
  case (Some rb)
  show ?thesis
  proof (cases "ring_buffer_used_space rb")
    case (Inl f)
    with assms Some show ?thesis by (simp add: receive_one_chunk_def Let_def)
  next
    case (Inr used)
    with Some that show ?thesis by simp
  qed
qed

lemma receive_one_chunk_calls:
  assumes "receive_one_chunk s d n t out env = Inr r"
  shows "case r of
           Exit e out' s1 env1 \<Rightarrow>
             e = kTimeoutErr \<and> rx_size s1 = 0 \<and> out' = out
             \<and> (\<exists>l. calls s1 = calls s @ l @ [Get_semaphore RX_COMPLETE t kTimeoutErr])
         | Next e s2 d' n' out' env1 \<Rightarrow>
             \<exists>l. calls s2 = calls s @ l \<and> no_timeout l"
proof -
  from assms obtain rb used where rb: "rx_buffer s = Some rb"
    and used: "ring_buffer_used_space rb = Inr used"
    by (rule receive_one_chunk_buffer)
  define ts where "ts = min (size rb div 2) n"
  show ?thesis
  proof (cases "used < size rb div 2 \<and> used < n")
    case True
    note eq = receive_one_chunk_wait [OF rb used True, of d t out env, folded ts_def]
    from assms eq obtain e s1 env1 where
      w: "wait_for_chunk s ts t env = Inr (e, s1, env1)"
      by (cases "wait_for_chunk s ts t env") auto
    note f = wait_for_chunk_frame [OF w]
    show ?thesis
    proof (cases "e = kNoErr")
      case False
      with assms eq w have r: "r = Exit e out s1 env1" by simp
      from f(3) False have "e = kTimeoutErr" by simp
      with r f(1,2) show ?thesis by auto
    next
      case e: True
      with assms eq w obtain s2 d' out' where
        c: "copy_chunk s1 d ts out = Inr (s2, d', out')"
        and r: "r = Next (last_receive_result s1) s2 d' (n - ts) out' env1"
        by (cases "copy_chunk s1 d ts out") auto
      from f(2) e obtain l where
        l: "calls s1 = calls s @ l @ [Get_semaphore RX_COMPLETE t kNoErr]" "\<forall>c \<in> set l. is_signal c"
        by auto
      have "calls s2 = calls s1"
        using moved_head_fields(1) [OF copy_chunk_moved_head [OF c]] .
      with l have "calls s2 = calls s @ (l @ [Get_semaphore RX_COMPLETE t kNoErr])
                   \<and> no_timeout (l @ [Get_semaphore RX_COMPLETE t kNoErr])"
        by (simp add: no_timeout_signals)
      then have "\<exists>l. calls s2 = calls s @ l \<and> no_timeout l" by (rule exI)
      with r show ?thesis by simp
    qed
  next
    case False
    note eq = receive_one_chunk_ready [OF rb used False, of d t out env, folded ts_def]
    from assms eq obtain s2 d' out' where
      c: "copy_chunk s d ts out = Inr (s2, d', out')"
      and r: "r = Next (last_receive_result s) s2 d' (n - ts) out' env"
      by (cases "copy_chunk s d ts out") auto
    have "calls s2 = calls s @ [] \<and> no_timeout []"
      using moved_head_fields(1) [OF copy_chunk_moved_head [OF c]] by simp
    then have "\<exists>l. calls s2 = calls s @ l \<and> no_timeout l" by (rule exI)
    with r show ?thesis by simp
  qed
qed

lemma receive_chunks_timeout:
  "receive_chunks s d n t err out env = Inr (e', out', s', env') \<Longrightarrow>
     (\<exists>l. calls s' = calls s @ l \<and> no_timeout l)
     \<or> (e' = kTimeoutErr \<and> rx_size s' = 0
        \<and> (\<exists>l. calls s' = calls s @ l @ [Get_semaphore RX_COMPLETE t kTimeoutErr]))"
proof (induction s d n t err out env rule: receive_chunks.induct)
  case (1 s data_in expected_data_size timeout_ms err out env)
  show ?case
  proof (cases "expected_data_size = 0")
    case True
    with "1.prems" have "s' = s" by (simp add: receive_chunks.simps [of s])
    then have "calls s' = calls s @ [] \<and> no_timeout []" by simp
    then have "\<exists>l. calls s' = calls s @ l \<and> no_timeout l" by (rule exI)
    then show ?thesis ..
  next
    case nz: False
    with "1.prems" obtain r where
      one: "receive_one_chunk s data_in expected_data_size timeout_ms out env = Inr r"
      by (cases "receive_one_chunk s data_in expected_data_size timeout_ms out env")
        (auto simp: receive_chunks.simps [of s])
    note c = receive_one_chunk_calls [OF one]
    show ?thesis
    proof (cases r)
      case (Exit e o1 s1 env1)
      with "1.prems" nz one have "e' = e" "s' = s1"
        by (auto simp: receive_chunks.simps [of s])
      with c Exit show ?thesis by auto
    next
      case (Next e1 s2 d2 n2 o2 env2)
      with "1.prems" nz one have less: "n2 < expected_data_size"
        and rec: "receive_chunks s2 d2 n2 timeout_ms e1 o2 env2 = Inr (e', out', s', env')"
        by (auto simp: receive_chunks.simps [of s] split: if_splits)
      from c Next obtain l1 where l1: "calls s2 = calls s @ l1" "no_timeout l1" by auto
      from "1.IH" [OF nz one Next less rec]
      show ?thesis
      proof
        assume "\<exists>l. calls s' = calls s2 @ l \<and> no_timeout l"
        then obtain l2 where "calls s' = calls s2 @ l2" "no_timeout l2" by auto
        with l1 have "calls s' = calls s @ (l1 @ l2) \<and> no_timeout (l1 @ l2)" by simp
        then have "\<exists>l. calls s' = calls s @ l \<and> no_timeout l" by (rule exI)
        then show ?thesis ..
      next
        assume a: "e' = kTimeoutErr \<and> rx_size s' = 0
          \<and> (\<exists>l. calls s' = calls s2 @ l @ [Get_semaphore RX_COMPLETE timeout_ms kTimeoutErr])"
        then obtain l2 where "calls s' = calls s2 @ l2 @ [Get_semaphore RX_COMPLETE timeout_ms kTimeoutErr]"
          by auto
        with l1 have "calls s' = calls s @ (l1 @ l2) @ [Get_semaphore RX_COMPLETE timeout_ms kTimeoutErr]"
          by simp
        then have "\<exists>l. calls s' = calls s @ l @ [Get_semaphore RX_COMPLETE timeout_ms kTimeoutErr]"
          by (rule exI)
        with a show ?thesis by simp
      qed
    qed
  qed
qed

subsection \<open>Transmit: parameter validation and the mutex\<close>

text \<open>
  Claim C1. A call of transmit with a null \<open>data_out\<close> or a size of zero returns the
  parameter error, and all it does is take and release the mutex between the two
  power-save calls. The mutex is taken before the parameters are looked at: when the
  mutex is held, the call blocks whatever its parameters are. Every call that returns
  has released the mutex: the calls it made start with power-save off and the lock,
  end with the unlock and power-save on, and lock or unlock nowhere in between.
\<close>

theorem transmit_parameter_error_and_mutex:
  "(data_out = 0 \<or> sz = 0 \<longrightarrow> \<not> tx_mutex s \<longrightarrow>
      platform_uart_transmit_bytes s data_out sz env =
        Inr (kParamErr,
             s\<lparr>calls := calls s @ [Powersave_disable, Lock_mutex, Unlock_mutex, Powersave_enable]\<rparr>,
             env))
   \<and> (tx_mutex s \<longrightarrow> platform_uart_transmit_bytes s data_out sz env = Inl NeverReturns)
   \<and> (\<forall>err s' env'. platform_uart_transmit_bytes s data_out sz env = Inr (err, s', env') \<longrightarrow>
         \<not> tx_mutex s'
         \<and> (\<exists>mid. calls s' = calls s @ [Powersave_disable, Lock_mutex] @ mid
                                @ [Unlock_mutex, Powersave_enable]
                \<and> Lock_mutex \<notin> set mid \<and> Unlock_mutex \<notin> set mid))"
proof (intro conjI impI allI)
  assume "data_out = 0 \<or> sz = 0" and "\<not> tx_mutex s"
  then show "platform_uart_transmit_bytes s data_out sz env =
        Inr (kParamErr,
             s\<lparr>calls := calls s @ [Powersave_disable, Lock_mutex, Unlock_mutex, Powersave_enable]\<rparr>,
             env)"
    by (auto simp: platform_uart_transmit_bytes_def mico_rtos_lock_mutex_def
        mico_rtos_unlock_mutex_def record_call_def)
next
  assume "tx_mutex s"
  then show "platform_uart_transmit_bytes s data_out sz env = Inl NeverReturns"
    by (simp add: platform_uart_transmit_bytes_def mico_rtos_lock_mutex_def)
next
  fix err s' env'
  assume ret: "platform_uart_transmit_bytes s data_out sz env = Inr (err, s', env')"
  then have free: "\<not> tx_mutex s"
    by (auto simp: platform_uart_transmit_bytes_def mico_rtos_lock_mutex_def split: if_splits)
  show "\<not> tx_mutex s'" 
    using ret free
    by (auto simp: platform_uart_transmit_bytes_def mico_rtos_lock_mutex_def Let_def
        mico_rtos_unlock_mutex_def split: if_splits sum.splits prod.splits)
  show "\<exists>mid. calls s' = calls s @ [Powersave_disable, Lock_mutex] @ mid
                                @ [Unlock_mutex, Powersave_enable]
                \<and> Lock_mutex \<notin> set mid \<and> Unlock_mutex \<notin> set mid"
  proof (cases "data_out = 0 \<or> sz = 0")
    case True
    with ret free have "calls s' = calls s @ [Powersave_disable, Lock_mutex] @ []
                                @ [Unlock_mutex, Powersave_enable]"
      by (auto simp: platform_uart_transmit_bytes_def mico_rtos_lock_mutex_def
          mico_rtos_unlock_mutex_def)
    then show ?thesis by (intro exI [of _ "[]"]) simp
  next
    case False
    then have v: "data_out \<noteq> 0" "sz \<noteq> 0" by auto
    let ?a = "armed (record_call Lock_mutex ((record_call Powersave_disable s)\<lparr>tx_mutex := True\<rparr>)) data_out sz"
    from ret obtain e s9 env1 s10 where
      g: "mico_rtos_get_semaphore TX_COMPLETE MICO_NEVER_TIMEOUT env ?a = Inr (e, s9, env1)"
      and w: "wait_USART_SR_TC env1 s9 = Inr (s10, env')"
      and s': "s' = record_call Powersave_enable
                      (mico_rtos_unlock_mutex ((USART_DMACmd USART_DMAReq_Tx False s10)\<lparr>tx_size := 0\<rparr>))"
      unfolding transmit_valid [OF v free] by (auto split: sum.splits prod.splits)
    from get_semaphore_frame [OF g] obtain l1 where
      l1: "calls s9 = calls ?a @ l1 @ [Get_semaphore TX_COMPLETE MICO_NEVER_TIMEOUT e]"
          "\<forall>c \<in> set l1. is_signal c" by auto
    from wait_USART_SR_TC_frame [OF w] obtain l2 where
      l2: "calls s10 = calls s9 @ l2" "\<forall>c \<in> set l2. is_signal c" by auto
    let ?mid = "l1 @ [Get_semaphore TX_COMPLETE MICO_NEVER_TIMEOUT e] @ l2"
    have "calls s' = calls s @ [Powersave_disable, Lock_mutex] @ ?mid @ [Unlock_mutex, Powersave_enable]"
      using s' l1 l2 by (simp add: mico_rtos_unlock_mutex_def)
    moreover have "Lock_mutex \<notin> set ?mid \<and> Unlock_mutex \<notin> set ?mid"
      using l1(2) l2(2) by (auto simp: is_signal_def)
    ultimately show ?thesis by (intro exI [of _ ?mid]) simp
  qed
qed

theorem transmit_parameter_error_and_mutex_witness:
  "platform_uart_transmit_bytes idle_uart 0 3 [] =
     Inr (kParamErr,
          idle_uart\<lparr>calls := [Powersave_disable, Lock_mutex, Unlock_mutex, Powersave_enable]\<rparr>, [])
   \<and> platform_uart_transmit_bytes (idle_uart\<lparr>tx_mutex := True\<rparr>) 0 3 [] = Inl NeverReturns
   \<and> (\<exists>s'. platform_uart_transmit_bytes idle_uart 0x20001000 3
               [HW_TX_DMA_FLAGS 0x08000000, IRQ_TX_DMA, HW_USART_TC] = Inr (kNoErr, s', [])
         \<and> \<not> tx_mutex s')"
proof -
  have c: "calls idle_uart = []" and m: "\<not> tx_mutex idle_uart" and n: "\<not> tx_complete idle_uart"
    and f: "complete_flags (tx_dma_config (peripheral idle_uart)) = 0x08000000"
    and e: "error_flags (tx_dma_config (peripheral idle_uart)) = 0x03400000"
    by (simp_all add: idle_uart_def example_peripheral_def)
  have "\<exists>s'. platform_uart_transmit_bytes idle_uart 0x20001000 3
               (HW_TX_DMA_FLAGS (complete_flags (tx_dma_config (peripheral idle_uart))) # IRQ_TX_DMA
                  # HW_USART_TC # []) = Inr (kNoErr, s', [])
             \<and> tx_size s' = 0"
    by (rule transmit_complete_scenario) (simp_all add: m n f e)
  then obtain s' where
    r: "platform_uart_transmit_bytes idle_uart 0x20001000 3
          [HW_TX_DMA_FLAGS 0x08000000, IRQ_TX_DMA, HW_USART_TC] = Inr (kNoErr, s', [])"
    unfolding f by (elim exE conjE)
  have "platform_uart_transmit_bytes idle_uart 0 3 [] =
     Inr (kParamErr,
          idle_uart\<lparr>calls := calls idle_uart @ [Powersave_disable, Lock_mutex, Unlock_mutex, Powersave_enable]\<rparr>, [])"
    by (rule transmit_parameter_error_and_mutex [of 0 3 idle_uart "[]", THEN conjunct1, rule_format])
      (simp_all add: m)
  then have 1: "platform_uart_transmit_bytes idle_uart 0 3 [] =
     Inr (kParamErr,
          idle_uart\<lparr>calls := [Powersave_disable, Lock_mutex, Unlock_mutex, Powersave_enable]\<rparr>, [])"
    unfolding c by simp
  have 2: "platform_uart_transmit_bytes (idle_uart\<lparr>tx_mutex := True\<rparr>) 0 3 [] = Inl NeverReturns"
    by (rule transmit_parameter_error_and_mutex [THEN conjunct2, THEN conjunct1, rule_format]) simp
  have 3: "\<not> tx_mutex s'"
    by (rule transmit_parameter_error_and_mutex
          [THEN conjunct2, THEN conjunct2, rule_format, OF r, THEN conjunct1])
  show ?thesis by (intro conjI exI [of _ s'] 1 2 r 3)
qed

subsection \<open>Transmit: the two-stage completion\<close>



subsection \<open>The transmit DMA interrupt\<close>

text \<open>
  Claim C4. For a peripheral description whose complete and error masks do not
  overlap, the transmit DMA handler leaves \<open>last_transmit_result\<close> at the general
  error when an error flag is pending, at success when only a complete flag is
  pending, and as it was otherwise; it clears the masks it found pending in the
  status register of the stream; and it signals the transmit completion exactly
  when \<open>tx_size > 0\<close>, whatever the result.
\<close>

theorem tx_dma_irq_result_and_signal:
  assumes "complete_flags (tx_dma_config (peripheral s)) AND error_flags (tx_dma_config (peripheral s)) = 0"
  shows "let cfg = tx_dma_config (peripheral s);
             pending_flags = get_dma_irq_status (stream cfg) s;
             complete = (pending_flags AND complete_flags cfg \<noteq> 0);
             failed = (pending_flags AND error_flags cfg \<noteq> 0);
             s' = platform_uart_tx_dma_irq s
         in last_transmit_result s' =
              (if failed then kGeneralErr else if complete then kNoErr else last_transmit_result s)
          \<and> get_dma_irq_status (stream cfg) s' =
              pending_flags AND NOT (if complete then complete_flags cfg else 0)
                            AND NOT (if failed then error_flags cfg else 0)
          \<and> new_calls s s' = (if tx_size s > 0 then [Set_semaphore TX_COMPLETE] else [])
          \<and> tx_complete s' = (tx_complete s \<or> tx_size s > 0)
          \<and> tx_size s' = tx_size s"
  using tx_dma_irq_result [OF assms]
  by (simp add: Let_def get_dma_irq_status_eq new_calls_def)

theorem tx_dma_irq_result_and_signal_witness:
  "complete_flags (tx_dma_config (peripheral idle_uart))
     AND error_flags (tx_dma_config (peripheral idle_uart)) = 0
   \<and> last_transmit_result
        (platform_uart_tx_dma_irq
           (idle_uart\<lparr>tx_size := 3, last_transmit_result := kGeneralErr,
                      dma_isr := (\<lambda>r. 0x08000000)\<rparr>)) = kNoErr
   \<and> tx_complete
        (platform_uart_tx_dma_irq
           (idle_uart\<lparr>tx_size := 3, last_transmit_result := kGeneralErr,
                      dma_isr := (\<lambda>r. 0x08000000)\<rparr>))
   \<and> last_transmit_result
        (platform_uart_tx_dma_irq
           (idle_uart\<lparr>tx_size := 3, dma_isr := (\<lambda>r. 0x02000000)\<rparr>)) = kGeneralErr
   \<and> \<not> tx_complete
        (platform_uart_tx_dma_irq (idle_uart\<lparr>dma_isr := (\<lambda>r. 0x08000000)\<rparr>))"
proof -
  have d: "complete_flags (tx_dma_config (peripheral idle_uart))
     AND error_flags (tx_dma_config (peripheral idle_uart)) = 0"
    by (simp add: idle_uart_def example_peripheral_def)
  have p: "peripheral idle_uart = example_peripheral"
    "tx_complete idle_uart = False" "tx_size idle_uart = 0"
    by (simp_all add: idle_uart_def)
  have x: "complete_flags (tx_dma_config example_peripheral) = 0x08000000"
    "error_flags (tx_dma_config example_peripheral) = 0x03400000"
    by (simp_all add: example_peripheral_def)
  let ?s1 = "idle_uart\<lparr>tx_size := 3, last_transmit_result := kGeneralErr,
                      dma_isr := (\<lambda>r. 0x08000000)\<rparr>"
  let ?s2 = "idle_uart\<lparr>tx_size := 3, dma_isr := (\<lambda>r. 0x02000000)\<rparr>"
  let ?s3 = "idle_uart\<lparr>dma_isr := (\<lambda>r. 0x08000000)\<rparr>"
  have d1: "complete_flags (tx_dma_config (peripheral ?s1))
     AND error_flags (tx_dma_config (peripheral ?s1)) = 0" using d by simp
  have d2: "complete_flags (tx_dma_config (peripheral ?s2))
     AND error_flags (tx_dma_config (peripheral ?s2)) = 0" using d by simp
  have d3: "complete_flags (tx_dma_config (peripheral ?s3))
     AND error_flags (tx_dma_config (peripheral ?s3)) = 0" using d by simp
  have 1: "last_transmit_result (platform_uart_tx_dma_irq ?s1) = kNoErr
     \<and> tx_complete (platform_uart_tx_dma_irq ?s1)"
    using tx_dma_irq_result_and_signal [OF d1]
    by (simp add: Let_def p x get_dma_irq_status_eq)
  have 2: "last_transmit_result (platform_uart_tx_dma_irq ?s2) = kGeneralErr"
    using tx_dma_irq_result_and_signal [OF d2]
    by (simp add: Let_def p x get_dma_irq_status_eq)
  have 3: "\<not> tx_complete (platform_uart_tx_dma_irq ?s3)"
    using tx_dma_irq_result_and_signal [OF d3]
    by (simp add: Let_def p x)
  show ?thesis using d 1 2 3 by simp
qed

subsection \<open>The UART byte interrupt\<close>

text \<open>
  Claim C5. With a ring buffer, the UART handler sets the tail cursor to the capacity
  minus the remaining count of the receive stream; it signals the receive completion
  and clears \<open>rx_size\<close> exactly when \<open>rx_size > 0\<close> and the used space of the ring
  buffer (with the new tail) has reached \<open>rx_size\<close>; and after it has signalled, no
  further event signals the receive completion again.
\<close>

lemma platform_uart_irq_buffered:
  assumes "rx_buffer s = Some rb"
    and "ring_buffer_used_space (rb\<lparr>tail := size rb - NDTR (rx_stream s)\<rparr>) = Inr used"
  shows "\<exists>s'. platform_uart_irq s = Inr s'
           \<and> rx_buffer s' = Some (rb\<lparr>tail := size rb - NDTR (rx_stream s)\<rparr>)
           \<and> rx_size s' = (if rx_size s > 0 \<and> used \<ge> rx_size s then 0 else rx_size s)
           \<and> rx_complete s' = (rx_complete s \<or> (rx_size s > 0 \<and> used \<ge> rx_size s))
           \<and> calls s' = calls s
               @ (if rx_size s > 0 \<and> used \<ge> rx_size s then [Set_semaphore RX_COMPLETE] else [])
               @ (if sem_wakeup s = None then [] else [Set_semaphore SEM_WAKEUP])"
  using assms
  by (auto simp: Let_def platform_uart_irq_def USART_SR_write_def split: option.splits)

theorem uart_irq_tail_and_signal:
  assumes "rx_buffer s = Some rb"
    and "ring_buffer_used_space (rb\<lparr>tail := size rb - NDTR (rx_stream s)\<rparr>) = Inr used"
  shows "let signal = (rx_size s > 0 \<and> used \<ge> rx_size s)
         in \<exists>s'. platform_uart_irq s = Inr s'
                \<and> rx_buffer s' = Some (rb\<lparr>tail := size rb - NDTR (rx_stream s)\<rparr>)
                \<and> rx_size s' = (if signal then 0 else rx_size s)
                \<and> rx_complete s' = (rx_complete s \<or> signal)
                \<and> new_calls s s' =
                     (if signal then [Set_semaphore RX_COMPLETE] else [])
                     @ (if sem_wakeup s = None then [] else [Set_semaphore SEM_WAKEUP])
                \<and> (\<forall>es s''. signal \<and> run_events es s' = Inr s'' \<longrightarrow>
                       rx_size s'' = 0
                       \<and> Set_semaphore RX_COMPLETE \<notin> set (new_calls s' s''))"
proof -
  define signal where "signal = (rx_size s > 0 \<and> used \<ge> rx_size s)"
  from platform_uart_irq_buffered [OF assms] obtain s' where s': "platform_uart_irq s = Inr s'"
    and f: "rx_buffer s' = Some (rb\<lparr>tail := size rb - NDTR (rx_stream s)\<rparr>)"
      "rx_size s' = (if signal then 0 else rx_size s)"
      "rx_complete s' = (rx_complete s \<or> signal)"
      "calls s' = calls s @ (if signal then [Set_semaphore RX_COMPLETE] else [])
                     @ (if sem_wakeup s = None then [] else [Set_semaphore SEM_WAKEUP])"
    unfolding signal_def by (elim exE conjE)
  have after: "rx_size s'' = 0 \<and> Set_semaphore RX_COMPLETE \<notin> set (new_calls s' s'')"
    if "signal \<and> run_events es s' = Inr s''" for es s''
  proof -
    from that f(2) have z: "rx_size s' = 0" by simp
    from that have r: "run_events es s' = Inr s''" by simp
    from run_events_no_waiter [OF r z] show ?thesis by auto
  qed
  have n: "new_calls s s' = (if signal then [Set_semaphore RX_COMPLETE] else [])
                     @ (if sem_wakeup s = None then [] else [Set_semaphore SEM_WAKEUP])"
    using f(4) by (simp add: new_calls_def)
  have "\<exists>s'. platform_uart_irq s = Inr s'
                \<and> rx_buffer s' = Some (rb\<lparr>tail := size rb - NDTR (rx_stream s)\<rparr>)
                \<and> rx_size s' = (if signal then 0 else rx_size s)
                \<and> rx_complete s' = (rx_complete s \<or> signal)
                \<and> new_calls s s' =
                     (if signal then [Set_semaphore RX_COMPLETE] else [])
                     @ (if sem_wakeup s = None then [] else [Set_semaphore SEM_WAKEUP])
                \<and> (\<forall>es s''. signal \<and> run_events es s' = Inr s'' \<longrightarrow>
                       rx_size s'' = 0
                       \<and> Set_semaphore RX_COMPLETE \<notin> set (new_calls s' s''))"
    using s' f(1,2,3) n after by (intro exI [of _ s']) blast
  then show ?thesis
    unfolding Let_def signal_def by simp
qed

text \<open>
  Five bytes are still to come into the 8-byte buffer, so three are there; a waiter
  for two is signalled, one for four is not.
\<close>

theorem uart_irq_tail_and_signal_witness:
  "(\<exists>s'. platform_uart_irq
            (idle_uart\<lparr>rx_buffer := Some example_ring_buffer, rx_size := 2,
                       rx_stream := \<lparr>CR = {}, NDTR = 5, NDTR_reload = 8, M0AR = 0\<rparr>\<rparr>) = Inr s'
         \<and> rx_buffer s' = Some (example_ring_buffer\<lparr>tail := 3\<rparr>)
         \<and> rx_size s' = 0 \<and> rx_complete s')
   \<and> (\<exists>s'. platform_uart_irq
            (idle_uart\<lparr>rx_buffer := Some example_ring_buffer, rx_size := 4,
                       rx_stream := \<lparr>CR = {}, NDTR = 5, NDTR_reload = 8, M0AR = 0\<rparr>\<rparr>) = Inr s'
         \<and> rx_size s' = 4 \<and> \<not> rx_complete s')"
proof -
  let ?st = "\<lparr>CR = {}, NDTR = 5, NDTR_reload = 8, M0AR = 0\<rparr> :: DMA_Stream_TypeDef"
  let ?s1 = "idle_uart\<lparr>rx_buffer := Some example_ring_buffer, rx_size := 2, rx_stream := ?st\<rparr>"
  let ?s2 = "idle_uart\<lparr>rx_buffer := Some example_ring_buffer, rx_size := 4, rx_stream := ?st\<rparr>"
  have b1: "rx_buffer ?s1 = Some example_ring_buffer" and b2: "rx_buffer ?s2 = Some example_ring_buffer"
    by simp_all
  have u1: "ring_buffer_used_space
      (example_ring_buffer\<lparr>tail := size example_ring_buffer - NDTR (rx_stream ?s1)\<rparr>) = Inr 3"
    by (simp add: example_ring_buffer_def ring_buffer_used_space_def)
  have u2: "ring_buffer_used_space
      (example_ring_buffer\<lparr>tail := size example_ring_buffer - NDTR (rx_stream ?s2)\<rparr>) = Inr 3"
    by (simp add: example_ring_buffer_def ring_buffer_used_space_def)
  have i: "rx_complete idle_uart = False" by (simp add: idle_uart_def)
  have 1: "\<exists>s'. platform_uart_irq ?s1 = Inr s'
         \<and> rx_buffer s' = Some (example_ring_buffer\<lparr>tail := 3\<rparr>)
         \<and> rx_size s' = 0 \<and> rx_complete s'"
    using uart_irq_tail_and_signal [OF b1 u1]
    by (auto simp: Let_def example_ring_buffer_def i)
  have 2: "\<exists>s'. platform_uart_irq ?s2 = Inr s' \<and> rx_size s' = 4 \<and> \<not> rx_complete s'"
    using uart_irq_tail_and_signal [OF b2 u2]
    by (auto simp: Let_def example_ring_buffer_def i)
  show ?thesis using 1 2 by (rule conjI)
qed

subsection \<open>Receive: parameter validation\<close>

text \<open>
  Claim C9. A receive call with a null \<open>data_in\<close> or an expected size of zero returns
  the parameter error, copies nothing, and leaves the driver, the hardware and the
  pending events exactly as they were.
\<close>

theorem receive_parameter_error_touches_nothing:
  "data_in = 0 \<or> expected_data_size = 0 \<Longrightarrow>
     platform_uart_receive_bytes s data_in expected_data_size timeout_ms env =
       Inr (kParamErr, [], s, env)"
  by (auto simp: platform_uart_receive_bytes_def)

theorem receive_parameter_error_touches_nothing_witness:
  "platform_uart_receive_bytes idle_uart 0 5 100 [IRQ_UART] = Inr (kParamErr, [], idle_uart, [IRQ_UART])
   \<and> platform_uart_receive_bytes idle_uart 0x20001000 0 100 [] = Inr (kParamErr, [], idle_uart, [])"
  by (intro conjI receive_parameter_error_touches_nothing) simp_all

subsection \<open>Initialisation\<close>

text \<open>
  Claim C7. For a port of the tables and line settings the switches accept: given a
  ring buffer (non-null store, non-zero capacity), init returns success having armed
  the receive stream in circular mode on the store for the whole capacity, with the
  request line of the receiver, the byte interrupt of the USART and the vector of the
  USART enabled, and it consumes no event, so it does not wait. The static receive
  primitive with a timeout of zero arms the stream and returns success at once,
  without a call to the RTOS. Given no ring buffer, init leaves the receive stream
  disabled, with no receive request and no byte interrupt, and enables the vector
  and the interrupt sources of the receive stream.
\<close>

theorem init_arms_circular_receive_or_leaves_idle:
  assumes "valid_settings p cfg"
  shows "(buffer rb \<noteq> 0 \<and> size rb \<noteq> 0 \<longrightarrow>
           (\<exists>s' v. platform_uart_init s (Some p) (Some cfg) (Some rb) env = Inr (kNoErr, s', env)
              \<and> rx_buffer s' = Some rb
              \<and> DMA_SxCR_CIRC \<in> CR (rx_stream s') \<and> DMA_SxCR_EN \<in> CR (rx_stream s')
              \<and> NDTR (rx_stream s') = size rb \<and> M0AR (rx_stream s') = buffer rb
              \<and> USART_DMAReq_Rx \<in> CR3 (usart s')
              \<and> USART_CR1_RXNEIE \<in> CR1 (usart s')
              \<and> table_entry uart_irq_vectors (platform_uart_get_port_number (port p)) = Inr v
              \<and> v \<in> nvic s'
              \<and> rx_size s' = 0))
       \<and> (\<exists>s'. receive_bytes s data sz 0 env = Inr (kNoErr, s', env)
              \<and> DMA_SxCR_EN \<in> CR (rx_stream s')
              \<and> NDTR (rx_stream s') = sz \<and> M0AR (rx_stream s') = data
              \<and> new_calls s s' = [])
       \<and> (\<exists>s'. platform_uart_init s (Some p) (Some cfg) None env = Inr (kNoErr, s', env)
              \<and> DMA_SxCR_EN \<notin> CR (rx_stream s')
              \<and> USART_DMAReq_Rx \<notin> CR3 (usart s')
              \<and> USART_CR1_RXNEIE \<notin> CR1 (usart s')
              \<and> irq_vector (rx_dma_config p) \<in> nvic s'
              \<and> DMA_INTERRUPT_FLAGS \<subseteq> CR (rx_stream s'))"
proof (intro conjI impI)
  assume "buffer rb \<noteq> 0 \<and> size rb \<noteq> 0"
  then have rb: "buffer rb \<noteq> 0" "size rb \<noteq> 0" by simp_all
  from init_with_ring_buffer [OF assms rb, of s env] obtain s' v where
    "platform_uart_init s (Some p) (Some cfg) (Some rb) env = Inr (kNoErr, s', env)"
    "table_entry uart_irq_vectors (platform_uart_get_port_number (port p)) = Inr v"
    "rx_buffer s' = Some rb"
    "rx_stream s' = \<lparr>CR = {DMA_SxCR_EN, DMA_SxCR_CIRC}, NDTR = size rb,
                          NDTR_reload = size rb, M0AR = buffer rb\<rparr>"
    "CR1 (usart s') = {USART_CR1_RXNEIE, USART_CR1_RE, USART_CR1_TE, USART_CR1_UE}"
    "CR3 (usart s') = {USART_DMAReq_Rx}"
    "nvic s' = insert v (insert (irq_vector (tx_dma_config p)) (nvic s))"
    "rx_size s' = 0"
    by (elim exE conjE)
  then show "\<exists>s' v. platform_uart_init s (Some p) (Some cfg) (Some rb) env = Inr (kNoErr, s', env)
              \<and> rx_buffer s' = Some rb
              \<and> DMA_SxCR_CIRC \<in> CR (rx_stream s') \<and> DMA_SxCR_EN \<in> CR (rx_stream s')
              \<and> NDTR (rx_stream s') = size rb \<and> M0AR (rx_stream s') = buffer rb
              \<and> USART_DMAReq_Rx \<in> CR3 (usart s')
              \<and> USART_CR1_RXNEIE \<in> CR1 (usart s')
              \<and> table_entry uart_irq_vectors (platform_uart_get_port_number (port p)) = Inr v
              \<and> v \<in> nvic s'
              \<and> rx_size s' = 0"
    by (intro exI [of _ s'] exI [of _ v]) simp
next
  show "\<exists>s'. receive_bytes s data sz 0 env = Inr (kNoErr, s', env)
              \<and> DMA_SxCR_EN \<in> CR (rx_stream s')
              \<and> NDTR (rx_stream s') = sz \<and> M0AR (rx_stream s') = data
              \<and> new_calls s s' = []"
    by (simp add: receive_bytes_arm new_calls_def)
next
  from init_without_ring_buffer [OF assms, of s env] obtain s' v where
    "platform_uart_init s (Some p) (Some cfg) None env = Inr (kNoErr, s', env)"
    "rx_stream s' = \<lparr>CR = DMA_INTERRUPT_FLAGS, NDTR = 0xFFFF, NDTR_reload = 0xFFFF, M0AR = 0\<rparr>"
    "CR1 (usart s') = {USART_CR1_RE, USART_CR1_TE, USART_CR1_UE}"
    "CR3 (usart s') = {}"
    "nvic s' = insert (irq_vector (rx_dma_config p))
                     (insert v (insert (irq_vector (tx_dma_config p)) (nvic s)))"
    by (elim exE conjE)
  then show "\<exists>s'. platform_uart_init s (Some p) (Some cfg) None env = Inr (kNoErr, s', env)
              \<and> DMA_SxCR_EN \<notin> CR (rx_stream s')
              \<and> USART_DMAReq_Rx \<notin> CR3 (usart s')
              \<and> USART_CR1_RXNEIE \<notin> CR1 (usart s')
              \<and> irq_vector (rx_dma_config p) \<in> nvic s'
              \<and> DMA_INTERRUPT_FLAGS \<subseteq> CR (rx_stream s')"
    by (intro exI [of _ s']) (simp add: DMA_INTERRUPT_FLAGS_def)
qed

theorem init_arms_circular_receive_or_leaves_idle_witness:
  "valid_settings example_peripheral example_config
   \<and> buffer example_ring_buffer \<noteq> 0 \<and> size example_ring_buffer \<noteq> 0
   \<and> (\<exists>s'. platform_uart_init idle_uart (Some example_peripheral) (Some example_config)
               (Some example_ring_buffer) [HW_RX_BYTE 0x41, IRQ_UART]
               = Inr (kNoErr, s', [HW_RX_BYTE 0x41, IRQ_UART])
          \<and> DMA_SxCR_CIRC \<in> CR (rx_stream s') \<and> DMA_SxCR_EN \<in> CR (rx_stream s')
          \<and> NDTR (rx_stream s') = 8 \<and> M0AR (rx_stream s') = 0x20000000
          \<and> USART_CR1_RXNEIE \<in> CR1 (usart s') \<and> 37 \<in> nvic s')
   \<and> (\<exists>s'. platform_uart_init idle_uart (Some example_peripheral) (Some example_config)
               None [] = Inr (kNoErr, s', [])
          \<and> DMA_SxCR_EN \<notin> CR (rx_stream s') \<and> 58 \<in> nvic s')"
proof -
  have rb: "buffer example_ring_buffer \<noteq> 0 \<and> size example_ring_buffer \<noteq> 0"
    by (simp add: example_ring_buffer_def)
  have v: "table_entry uart_irq_vectors (platform_uart_get_port_number (port example_peripheral)) = Inr 37"
    by (simp add: table_entry_def uart_irq_vectors_def platform_uart_get_port_number_def
        example_peripheral_def)
  have x: "irq_vector (rx_dma_config example_peripheral) = 58"
    by (simp add: example_peripheral_def)
  note inst = init_arms_circular_receive_or_leaves_idle [OF example_valid]
  have 1: "\<exists>s'. platform_uart_init idle_uart (Some example_peripheral) (Some example_config)
               (Some example_ring_buffer) [HW_RX_BYTE 0x41, IRQ_UART]
               = Inr (kNoErr, s', [HW_RX_BYTE 0x41, IRQ_UART])
          \<and> DMA_SxCR_CIRC \<in> CR (rx_stream s') \<and> DMA_SxCR_EN \<in> CR (rx_stream s')
          \<and> NDTR (rx_stream s') = 8 \<and> M0AR (rx_stream s') = 0x20000000
          \<and> USART_CR1_RXNEIE \<in> CR1 (usart s') \<and> 37 \<in> nvic s'"
    using inst [THEN conjunct1, rule_format, OF rb, of idle_uart "[HW_RX_BYTE 0x41, IRQ_UART]"]
    by (auto simp: v example_ring_buffer_def)
  have 2: "\<exists>s'. platform_uart_init idle_uart (Some example_peripheral) (Some example_config)
               None [] = Inr (kNoErr, s', [])
          \<and> DMA_SxCR_EN \<notin> CR (rx_stream s') \<and> 58 \<in> nvic s'"
    using inst [THEN conjunct2, THEN conjunct2, of idle_uart "[]"]
    by (auto simp: x)
  show ?thesis using example_valid rb 1 2 by simp
qed

subsection \<open>The bytes-available query\<close>

text \<open>
  Claim C10. The query reads through \<open>rx_buffer\<close> without a test: with no ring buffer
  it is a null dereference, with one it is the used space of that buffer and no
  status code. So after an init with a ring buffer the query is defined, and after
  an init without one, on a driver whose \<open>rx_buffer\<close> is null, it is not.
\<close>

theorem query_needs_ring_buffer:
  "(rx_buffer s = None \<longrightarrow> platform_uart_get_length_in_buffer s = Inl NullPointer)
   \<and> (\<forall>rb. rx_buffer s = Some rb \<longrightarrow>
         platform_uart_get_length_in_buffer s = ring_buffer_used_space rb)
   \<and> (valid_settings p cfg \<and> buffer rb \<noteq> 0 \<and> size rb \<noteq> 0 \<longrightarrow>
         (\<exists>s'. platform_uart_init s (Some p) (Some cfg) (Some rb) env = Inr (kNoErr, s', env)
            \<and> platform_uart_get_length_in_buffer s' = ring_buffer_used_space rb
            \<and> (\<exists>n. ring_buffer_used_space rb = Inr n)))
   \<and> (valid_settings p cfg \<and> rx_buffer s = None \<longrightarrow>
         (\<exists>s'. platform_uart_init s (Some p) (Some cfg) None env = Inr (kNoErr, s', env)
            \<and> platform_uart_get_length_in_buffer s' = Inl NullPointer))"
proof (intro conjI impI allI)
  assume "rx_buffer s = None"
  then show "platform_uart_get_length_in_buffer s = Inl NullPointer"
    by (simp add: platform_uart_get_length_in_buffer_def)
next
  fix rb assume "rx_buffer s = Some rb"
  then show "platform_uart_get_length_in_buffer s = ring_buffer_used_space rb"
    by (simp add: platform_uart_get_length_in_buffer_def)
next
  assume a: "valid_settings p cfg \<and> buffer rb \<noteq> 0 \<and> size rb \<noteq> 0"
  then have v: "valid_settings p cfg" and rb: "buffer rb \<noteq> 0" "size rb \<noteq> 0" by simp_all
  from init_with_ring_buffer [OF v rb, of s env] obtain s' where
    "platform_uart_init s (Some p) (Some cfg) (Some rb) env = Inr (kNoErr, s', env)"
    "rx_buffer s' = Some rb"
    by (elim exE conjE)
  moreover have "\<exists>n. ring_buffer_used_space rb = Inr n"
    using rb(2) by (simp add: ring_buffer_used_space_def)
  ultimately show "\<exists>s'. platform_uart_init s (Some p) (Some cfg) (Some rb) env = Inr (kNoErr, s', env)
            \<and> platform_uart_get_length_in_buffer s' = ring_buffer_used_space rb
            \<and> (\<exists>n. ring_buffer_used_space rb = Inr n)"
    by (intro exI [of _ s']) (simp add: platform_uart_get_length_in_buffer_def)
next
  assume a: "valid_settings p cfg \<and> rx_buffer s = None"
  then have v: "valid_settings p cfg" and n: "rx_buffer s = None" by simp_all
  from init_without_ring_buffer [OF v, of s env] obtain s' where
    "platform_uart_init s (Some p) (Some cfg) None env = Inr (kNoErr, s', env)"
    "rx_buffer s' = rx_buffer s"
    by (elim exE conjE)
  then show "\<exists>s'. platform_uart_init s (Some p) (Some cfg) None env = Inr (kNoErr, s', env)
            \<and> platform_uart_get_length_in_buffer s' = Inl NullPointer"
    using n by (intro exI [of _ s']) (simp add: platform_uart_get_length_in_buffer_def)
qed

theorem query_needs_ring_buffer_witness:
  "platform_uart_get_length_in_buffer idle_uart = Inl NullPointer
   \<and> platform_uart_get_length_in_buffer
        (idle_uart\<lparr>rx_buffer := Some (example_ring_buffer\<lparr>head := 6, tail := 1\<rparr>)\<rparr>) = Inr 3
   \<and> (\<exists>s'. platform_uart_init idle_uart (Some example_peripheral) (Some example_config)
              (Some example_ring_buffer) [] = Inr (kNoErr, s', [])
          \<and> platform_uart_get_length_in_buffer s' = Inr 0)
   \<and> (\<exists>s'. platform_uart_init idle_uart (Some example_peripheral) (Some example_config)
              None [] = Inr (kNoErr, s', [])
          \<and> platform_uart_get_length_in_buffer s' = Inl NullPointer)"
proof -
  have n: "rx_buffer idle_uart = None" by (simp add: idle_uart_def)
  have rb: "buffer example_ring_buffer \<noteq> 0 \<and> size example_ring_buffer \<noteq> 0"
    by (simp add: example_ring_buffer_def)
  have u0: "ring_buffer_used_space example_ring_buffer = Inr 0"
    by (simp add: ring_buffer_used_space_def example_ring_buffer_def)
  have u3: "ring_buffer_used_space (example_ring_buffer\<lparr>head := 6, tail := 1\<rparr>) = Inr 3"
    by (simp add: ring_buffer_used_space_def example_ring_buffer_def)
  have 1: "platform_uart_get_length_in_buffer idle_uart = Inl NullPointer"
    by (rule query_needs_ring_buffer [THEN conjunct1, rule_format]) (rule n)
  have 2: "platform_uart_get_length_in_buffer
        (idle_uart\<lparr>rx_buffer := Some (example_ring_buffer\<lparr>head := 6, tail := 1\<rparr>)\<rparr>) = Inr 3"
    using query_needs_ring_buffer [THEN conjunct2, THEN conjunct1, rule_format,
        of "idle_uart\<lparr>rx_buffer := Some (example_ring_buffer\<lparr>head := 6, tail := 1\<rparr>)\<rparr>"
           "example_ring_buffer\<lparr>head := 6, tail := 1\<rparr>"]
    by (simp add: u3)
  have 3: "\<exists>s'. platform_uart_init idle_uart (Some example_peripheral) (Some example_config)
              (Some example_ring_buffer) [] = Inr (kNoErr, s', [])
          \<and> platform_uart_get_length_in_buffer s' = Inr 0"
    using query_needs_ring_buffer [THEN conjunct2, THEN conjunct2, THEN conjunct1, rule_format,
        of example_peripheral example_config example_ring_buffer idle_uart "[]"]
      example_valid rb
    by (auto simp: u0)
  have 4: "\<exists>s'. platform_uart_init idle_uart (Some example_peripheral) (Some example_config)
              None [] = Inr (kNoErr, s', [])
          \<and> platform_uart_get_length_in_buffer s' = Inl NullPointer"
    using query_needs_ring_buffer [THEN conjunct2, THEN conjunct2, THEN conjunct2, rule_format,
        of example_peripheral example_config idle_uart "[]"]
      example_valid n
    by simp
  show ?thesis using 1 2 3 4 by simp
qed

subsection \<open>Deinitialisation\<close>

text \<open>
  Claim C8, evaluated on USART1 without a ring buffer, from a reset machine with no
  vector enabled. Init enables three vectors: the USART (37), the receive stream
  (58) and the transmit stream (70). Deinit leaves the counters at zero and the
  results at success, disables the interrupt sources of both streams, the byte
  interrupt of the USART and the vectors of both streams; the vector of the USART
  stays enabled. The source says \<^verbatim>\<open>Disable UART interrupt vector on Cortex-M3\<close> above a
  call that disables the vector of the receive stream.
\<close>

theorem deinit_leaves_uart_vector_enabled:
  "\<exists>s1 s2. platform_uart_init idle_uart (Some example_peripheral) (Some example_config) None []
              = Inr (kNoErr, s1, [])
     \<and> platform_uart_deinit s1 = Inr (kNoErr, s2)
     \<and> nvic idle_uart = {}
     \<and> nvic s1 = {37, 58, 70}
     \<and> nvic s2 = {37}
     \<and> USART_CR1_RXNEIE \<notin> CR1 (usart s2)
     \<and> CR (tx_stream s2) = {} \<and> CR (rx_stream s2) = {}
     \<and> rx_size s2 = 0 \<and> tx_size s2 = 0
     \<and> last_transmit_result s2 = kNoErr \<and> last_receive_result s2 = kNoErr"
proof -
  have v: "table_entry uart_irq_vectors (platform_uart_get_port_number (port example_peripheral)) = Inr 37"
    by (simp add: table_entry_def uart_irq_vectors_def platform_uart_get_port_number_def
        example_peripheral_def)
  have x: "irq_vector (rx_dma_config example_peripheral) = 58"
    "irq_vector (tx_dma_config example_peripheral) = 70"
    by (simp_all add: example_peripheral_def)
  have n: "nvic idle_uart = {}" by (simp add: idle_uart_def)
  from init_without_ring_buffer [OF example_valid, of idle_uart "[]"] obtain s1 v' where
    i: "platform_uart_init idle_uart (Some example_peripheral) (Some example_config) None []
          = Inr (kNoErr, s1, [])"
    and v': "table_entry uart_irq_vectors (platform_uart_get_port_number (port example_peripheral)) = Inr v'"
    and p: "peripheral s1 = example_peripheral"
    and n1: "nvic s1 = insert (irq_vector (rx_dma_config example_peripheral))
                     (insert v' (insert (irq_vector (tx_dma_config example_peripheral)) (nvic idle_uart)))"
    by (elim exE conjE)
  from v v' have "v' = 37" by simp
  with n1 have n1': "nvic s1 = {37, 58, 70}" unfolding x n by auto
  have "valid_port (port (peripheral s1))"
    using example_valid p by (simp add: valid_settings_def)
  from deinit_result [OF this] obtain s2 where
    d: "platform_uart_deinit s1 = Inr (kNoErr, s2)"
    and f: "rx_size s2 = 0" "tx_size s2 = 0" "last_transmit_result s2 = kNoErr"
       "last_receive_result s2 = kNoErr"
    and h: "tx_stream s2 = DMA_reset" "rx_stream s2 = DMA_reset"
       "usart s2 = \<lparr>SR = {USART_SR_TC, USART_SR_TXE}, CR1 = {}, CR3 = {}\<rparr>"
    and n2: "nvic s2 = nvic s1 - {irq_vector (tx_dma_config (peripheral s1)),
                             irq_vector (rx_dma_config (peripheral s1))}"
    by (elim exE conjE)
  have n2': "nvic s2 = {37}" unfolding n2 n1' p x by auto
  show ?thesis
    using i d n n1' n2' f h by (intro exI [of _ s1] exI [of _ s2]) (simp add: DMA_reset_def)
qed

subsection \<open>Receive: timeout in buffered mode\<close>

text \<open>
  Claim C2. At any pass of the chunk loop where the ring buffer holds less than the
  chunk and the wait on the receive completion signal times out, the loop returns at
  once: the timeout error, the output as it was, and the state the wait left with
  \<open>rx_size\<close> reset to zero. For a whole call in buffered mode: when one of its waits
  timed out, the call returns the timeout error with \<open>rx_size = 0\<close>, the wait that
  timed out is the last thing it did, and whatever events follow, none signals the
  receive completion and \<open>rx_size\<close> stays zero.
\<close>

theorem receive_timeout_resets_watermark:
  "(\<forall>rb used d err out s2 env2.
       rx_buffer s = Some rb \<and> n \<noteq> 0 \<and> ring_buffer_used_space rb = Inr used
       \<and> used < min (size rb div 2) n
       \<and> mico_rtos_get_semaphore RX_COMPLETE t env
            (s\<lparr>last_receive_result := kNoErr, rx_size := min (size rb div 2) n\<rparr>)
           = Inr (kTimeoutErr, s2, env2)
       \<longrightarrow> receive_chunks s d n t err out env = Inr (kTimeoutErr, out, s2\<lparr>rx_size := 0\<rparr>, env2))
   \<and> (\<forall>e out s' env'.
       rx_buffer s \<noteq> None \<and> data_in \<noteq> 0 \<and> n \<noteq> 0
       \<and> platform_uart_receive_bytes s data_in n t env = Inr (e, out, s', env')
       \<and> Get_semaphore RX_COMPLETE t kTimeoutErr \<in> set (new_calls s s')
       \<longrightarrow> e = kTimeoutErr \<and> rx_size s' = 0
           \<and> last (calls s') = Get_semaphore RX_COMPLETE t kTimeoutErr
           \<and> (\<forall>es s''. run_events es s' = Inr s'' \<longrightarrow>
                 rx_size s'' = 0 \<and> rx_complete s'' = rx_complete s'
                 \<and> Set_semaphore RX_COMPLETE \<notin> set (new_calls s' s'')))"
proof (intro conjI allI impI)
  fix rb used d err out s2 env2
  assume a: "rx_buffer s = Some rb \<and> n \<noteq> 0 \<and> ring_buffer_used_space rb = Inr used
       \<and> used < min (size rb div 2) n
       \<and> mico_rtos_get_semaphore RX_COMPLETE t env
            (s\<lparr>last_receive_result := kNoErr, rx_size := min (size rb div 2) n\<rparr>)
           = Inr (kTimeoutErr, s2, env2)"
  then have w: "wait_for_chunk s (min (size rb div 2) n) t env = Inr (kTimeoutErr, s2\<lparr>rx_size := 0\<rparr>, env2)"
    by (simp add: wait_for_chunk_def)
  from a have c: "used < size rb div 2 \<and> used < n" by simp
  from a have rb: "rx_buffer s = Some rb" and used: "ring_buffer_used_space rb = Inr used"
    and nz: "n \<noteq> 0" by simp_all
  have "receive_one_chunk s d n t out env = Inr (Exit kTimeoutErr out (s2\<lparr>rx_size := 0\<rparr>) env2)"
    unfolding receive_one_chunk_wait [OF rb used c] w by simp
  with nz show "receive_chunks s d n t err out env = Inr (kTimeoutErr, out, s2\<lparr>rx_size := 0\<rparr>, env2)"
    by (simp add: receive_chunks.simps [of s])
next
  fix e out s' env'
  assume a: "rx_buffer s \<noteq> None \<and> data_in \<noteq> 0 \<and> n \<noteq> 0
       \<and> platform_uart_receive_bytes s data_in n t env = Inr (e, out, s', env')
       \<and> Get_semaphore RX_COMPLETE t kTimeoutErr \<in> set (new_calls s s')"
  then have r: "receive_chunks s data_in n t kNoErr [] env = Inr (e, out, s', env')"
    by (auto simp: platform_uart_receive_bytes_def split: if_splits)
  from a have tm: "Get_semaphore RX_COMPLETE t kTimeoutErr \<in> set (new_calls s s')" by simp
  from receive_chunks_timeout [OF r]
  have b: "e = kTimeoutErr \<and> rx_size s' = 0
        \<and> (\<exists>l. calls s' = calls s @ l @ [Get_semaphore RX_COMPLETE t kTimeoutErr])"
  proof
    assume "\<exists>l. calls s' = calls s @ l \<and> no_timeout l"
    then obtain l where "calls s' = calls s @ l" "no_timeout l" by auto
    with tm show ?thesis by (simp add: new_calls_def no_timeout_def)
  qed
  then show "e = kTimeoutErr" and z: "rx_size s' = 0"
    and "last (calls s') = Get_semaphore RX_COMPLETE t kTimeoutErr"
    by auto
  fix es s''
  assume "run_events es s' = Inr s''"
  from run_events_no_waiter [OF this z]
  show "rx_size s'' = 0" and "rx_complete s'' = rx_complete s'"
    and "Set_semaphore RX_COMPLETE \<notin> set (new_calls s' s'')"
    by auto
qed

text \<open>
  Three bytes are asked of an empty 8-byte ring buffer, with a timeout of 100 ms, and
  nothing arrives.
\<close>

theorem receive_timeout_resets_watermark_witness:
  "\<exists>s'. platform_uart_receive_bytes (idle_uart\<lparr>rx_buffer := Some example_ring_buffer\<rparr>)
           0x20001000 3 100 [] = Inr (kTimeoutErr, [], s', [])
      \<and> rx_size s' = 0
      \<and> last (calls s') = Get_semaphore RX_COMPLETE 100 kTimeoutErr
      \<and> \<not> rx_complete (platform_uart_rx_dma_irq s')"
proof -
  let ?s = "idle_uart\<lparr>rx_buffer := Some example_ring_buffer\<rparr>"
  let ?w = "?s\<lparr>last_receive_result := kNoErr,
               rx_size := min (size example_ring_buffer div 2) 3\<rparr>"
  let ?s2 = "record_call (Get_semaphore RX_COMPLETE 100 kTimeoutErr) ?w"
  note inst = receive_timeout_resets_watermark [of ?s 3 100 "[]" "0x20001000"]
  have u: "ring_buffer_used_space example_ring_buffer = Inr 0"
    by (simp add: ring_buffer_used_space_def example_ring_buffer_def)
  have m: "(0 :: uint32_t) < min (size example_ring_buffer div 2) 3"
    by (simp add: example_ring_buffer_def)
  have np: "\<not> rx_complete idle_uart" by (simp add: idle_uart_def)
  have g: "mico_rtos_get_semaphore RX_COMPLETE 100 [] ?w = Inr (kTimeoutErr, ?s2, [])"
    using np by (simp add: MICO_NEVER_TIMEOUT_def)
  have a: "rx_buffer ?s = Some example_ring_buffer \<and> (3 :: uint32_t) \<noteq> 0
       \<and> ring_buffer_used_space example_ring_buffer = Inr 0
       \<and> 0 < min (size example_ring_buffer div 2) 3
       \<and> mico_rtos_get_semaphore RX_COMPLETE 100 [] ?w = Inr (kTimeoutErr, ?s2, [])"
    using u m g by simp
  have c: "receive_chunks ?s 0x20001000 3 100 kNoErr [] [] = Inr (kTimeoutErr, [], ?s2\<lparr>rx_size := 0\<rparr>, [])"
    by (rule inst [THEN conjunct1, rule_format, OF a])
  then have r: "platform_uart_receive_bytes ?s 0x20001000 3 100 [] = Inr (kTimeoutErr, [], ?s2\<lparr>rx_size := 0\<rparr>, [])"
    by (simp add: platform_uart_receive_bytes_def)
  have t: "Get_semaphore RX_COMPLETE 100 kTimeoutErr \<in> set (new_calls ?s (?s2\<lparr>rx_size := 0\<rparr>))"
    by (simp add: new_calls_def)
  have b: "rx_buffer ?s \<noteq> None \<and> (0x20001000 :: uint32_t) \<noteq> 0 \<and> (3 :: uint32_t) \<noteq> 0
       \<and> platform_uart_receive_bytes ?s 0x20001000 3 100 [] = Inr (kTimeoutErr, [], ?s2\<lparr>rx_size := 0\<rparr>, [])
       \<and> Get_semaphore RX_COMPLETE 100 kTimeoutErr \<in> set (new_calls ?s (?s2\<lparr>rx_size := 0\<rparr>))"
    using r t by simp
  note after = inst [THEN conjunct2, rule_format, OF b]
  have 1: "rx_size (?s2\<lparr>rx_size := 0\<rparr>) = 0"
    and 2: "last (calls (?s2\<lparr>rx_size := 0\<rparr>)) = Get_semaphore RX_COMPLETE 100 kTimeoutErr"
    using after by simp_all
  have "run_events [IRQ_RX_DMA] (?s2\<lparr>rx_size := 0\<rparr>) = Inr (platform_uart_rx_dma_irq (?s2\<lparr>rx_size := 0\<rparr>))"
    by simp
  from after [THEN conjunct2, THEN conjunct2, THEN conjunct2, rule_format, OF this]
  have 3: "\<not> rx_complete (platform_uart_rx_dma_irq (?s2\<lparr>rx_size := 0\<rparr>))"
    using np by simp
  show ?thesis
    by (rule exI [of _ "?s2\<lparr>rx_size := 0\<rparr>"]) (intro conjI r 1 2 3)
qed

end
